theory Spec2Isabelle
  imports Main "HOL-Library.Word"
begin

unbundle bit_operations_syntax

section \<open>The event handlers of the window manager (src/src/event.c)\<close>

text \<open>
  A shallow embedding of \<^verbatim>\<open>event.c\<close>. Every handler of the file is a function on an
  explicit program state (\<open>World\<close>): the client registry, the queue of events the display
  server has delivered, the globals and the function-local statics the handlers write, and
  a trace of everything the handlers ask of the display (\<open>Display\<close>), of a window's
  controller hook (\<open>Controller\<close>) and of the other modules of the window manager
  (\<open>Collab\<close>, by the name of the function called, the window of the client it is called on
  and its further arguments). The file decides when those operations are invoked and with
  which arguments; the trace records exactly that, in order.

  Only \<^verbatim>\<open>event.c\<close> is available. What it reads from other files comes in through the
  record \<open>Env\<close> (configuration values, the atom table, and the results of functions of other
  modules that steer the control flow here). A call of a function of another module is
  recorded in the trace and changes nothing else, except for the few functions whose effect
  on the client records the specification states (the sticky, maximized and shaded flags,
  the desktop, the removal from the registry); these are modelled from the specification,
  and each says so.

  Integers: \<^verbatim>\<open>long\<close> and \<^verbatim>\<open>int\<close> values (message data, coordinates, sizes) are \<open>int\<close>, with
  \<open>AND\<close> and \<open>drop_bit\<close> for \<^verbatim>\<open>&\<close> and \<^verbatim>\<open>>>\<close>. Where the source stores a \<^verbatim>\<open>long\<close> into an \<^verbatim>\<open>int\<close>
  or passes an \<^verbatim>\<open>int\<close> as an \<^verbatim>\<open>unsigned int\<close> (the move-resize request, whose values the
  client chooses), the conversion is written out (\<open>c_int\<close>, \<open>c_unsigned\<close>). Times are 32-bit
  words, since the double click test depends on the wrap-around of their difference.
\<close>

subsection \<open>Data\<close>

type_synonym Window = nat
type_synonym Atom = nat
type_synonym Time = "32 word"
  \<comment> \<open>X timestamps are 32-bit server times; \<^verbatim>\<open>Time\<close> is \<^verbatim>\<open>unsigned long\<close>, and the only
      arithmetic here is a difference converted to \<^verbatim>\<open>int\<close>, that is, taken modulo \<open>2^32\<close>.\<close>

text \<open>
  \<^verbatim>\<open>np->state.status\<close> and \<^verbatim>\<open>np->state.border\<close> are bit masks whose bits are named by
  macros of \<^verbatim>\<open>client.h\<close> (not available). A mask of distinct one-bit flags is the set of
  the flags that are on: \<^verbatim>\<open>s & F\<close> is \<open>F \<in> s\<close>, \<^verbatim>\<open>s |= F\<close> is \<open>insert F s\<close>, \<^verbatim>\<open>s &= ~F\<close> is
  \<open>s - {F}\<close>.
\<close>

datatype StatusFlag =
  STAT_ACTIVE | STAT_MAPPED | STAT_MAXIMIZED | STAT_STICKY | STAT_NOLIST
  | STAT_MINIMIZED | STAT_SHADED | STAT_WMDIALOG | STAT_SDESKTOP

datatype BorderFlag = BORDER_OUTLINE | BORDER_TITLE

text \<open>
  \<^verbatim>\<open>BorderActionType\<close>: the low four bits name the action (\<^verbatim>\<open>action & 0x0F\<close>), the bits
  above them the edges of a resize. The numeric values are in \<^verbatim>\<open>border.h\<close> (not available), so
  a value is the pair of the two parts.
\<close>

datatype BorderActionKind =
  BA_NONE | BA_RESIZE | BA_MOVE | BA_CLOSE | BA_MAXIMIZE | BA_MINIMIZE | BA_MENU

type_synonym BorderActionType = "BorderActionKind \<times> nat"

text \<open>
  \<^verbatim>\<open>ClientNode\<close>, the fields this file reads or writes (\<^verbatim>\<open>np->state.status\<close>,
  \<^verbatim>\<open>np->state.border\<close> and the desktop of the state are fields of the record itself).
  \<open>c_controller\<close> says whether \<^verbatim>\<open>np->controller\<close> is set.
\<close>

record ClientNode =
  c_window :: Window
  c_parent :: Window
  c_x :: int
  c_y :: int
  c_width :: int
  c_height :: int
  c_gravity :: int
  c_status :: "StatusFlag set"
  c_border :: "BorderFlag set"
  c_desktop :: int
  c_borderAction :: BorderActionType
  c_cmap :: nat
  c_controller :: bool

subsubsection \<open>Events\<close>

datatype ButtonEventType = ButtonPress | ButtonRelease
datatype KeyEventType = KeyPress | KeyRelease
datatype CrossingEventType = EnterNotify | LeaveNotify

record XButtonEvent =
  b_type :: ButtonEventType
  b_window :: Window
  b_time :: Time
  b_x :: int
  b_y :: int
  b_state :: nat
  b_button :: nat

record XKeyEvent =
  k_type :: KeyEventType
  k_window :: Window
  k_state :: nat
  k_keycode :: nat

record XCrossingEvent =
  x_type :: CrossingEventType
  x_window :: Window
  x_x :: int
  x_y :: int
  x_x_root :: int
  x_y_root :: int

record XMotionEvent =
  m_window :: Window
  m_x :: int
  m_y :: int
  m_x_root :: int
  m_y_root :: int
  m_is_hint :: bool

record XConfigureRequestEvent =
  cr_window :: Window
  cr_x :: int
  cr_y :: int
  cr_width :: int
  cr_height :: int
  cr_border_width :: int
  cr_above :: Window
  cr_detail :: int
  cr_value_mask :: nat

record XMapEvent =
  mp_window :: Window

record XPropertyEvent =
  p_window :: Window
  p_atom :: Atom

text \<open>The five longs \<^verbatim>\<open>data.l[0..4]\<close> of a client message are the fields \<open>l0 \<dots> l4\<close>.\<close>

record XClientMessageEvent =
  cm_window :: Window
  cm_message_type :: Atom
  l0 :: int
  l1 :: int
  l2 :: int
  l3 :: int
  l4 :: int

record XUnmapEvent =
  u_window :: Window

record XExposeEvent =
  e_window :: Window
  e_count :: int

record XColormapEvent =
  cc_window :: Window
  cc_colormap :: nat
  cc_new :: bool

text \<open>
  A destroy notification names the window it was reported on (\<^verbatim>\<open>event\<close>, which is what
  \<^verbatim>\<open>xany.window\<close> aliases) and the window destroyed (\<^verbatim>\<open>window\<close>).
\<close>

record XDestroyWindowEvent =
  d_event :: Window
  d_window :: Window

record XSelectionClearEvent =
  sc_window :: Window

record XResizeRequestEvent =
  rr_window :: Window
  rr_width :: int
  rr_height :: int

text \<open>
  \<^verbatim>\<open>XEvent\<close> is a union tagged by \<^verbatim>\<open>type\<close>; one constructor for each member the file reads,
  the types that come in pairs kept in the member's own \<^verbatim>\<open>type\<close> field. \<open>OtherEvent t w\<close> is
  an event of any other type code \<open>t\<close> (an extension's, for instance) on window \<open>w\<close>.
\<close>

datatype XEvent =
  ButtonEvent XButtonEvent
  | KeyEvent XKeyEvent
  | CrossingEvent XCrossingEvent
  | MotionNotify XMotionEvent
  | ConfigureRequest XConfigureRequestEvent
  | MapRequest XMapEvent
  | PropertyNotify XPropertyEvent
  | ClientMessage XClientMessageEvent
  | UnmapNotify XUnmapEvent
  | Expose XExposeEvent
  | ColormapNotify XColormapEvent
  | DestroyNotify XDestroyWindowEvent
  | SelectionClear XSelectionClearEvent
  | ResizeRequest XResizeRequestEvent
  | ConfigureNotify | CreateNotify | MapNotify | ReparentNotify | GraphicsExpose | NoExpose
  | OtherEvent nat Window

subsubsection \<open>The trace\<close>

record XWindowChanges =
  wc_x :: int
  wc_y :: int
  wc_width :: int
  wc_height :: int
  wc_border_width :: int
  wc_sibling :: Window
  wc_stack_mode :: int

datatype XRequest =
  JXConfigureWindow Window nat XWindowChanges
  | JXMoveResizeWindow Window int int nat nat
  | JXDefineCursor Window nat
  | JXAllowEvents
  | JXSync
  | JXGrabServer
  | JXUngrabServer
  | JXMapWindow Window
  | JXUnmapWindow Window

datatype Effect =
  Display XRequest
  | Controller Window bool
  | Collab string "int list"

subsubsection \<open>The program state\<close>

text \<open>
  \<open>clients\<close> is the registry; a \<^verbatim>\<open>ClientNode *\<close> is a position in it. \<open>queue\<close> holds the events
  already delivered by the display server, oldest first. \<open>doubleClickActive\<close>, \<open>lastClickTime\<close>,
  \<open>lastX\<close> and \<open>lastY\<close> are the statics of \<^verbatim>\<open>DispatchBorderButtonEvent\<close>.
\<close>

record World =
  clients :: "ClientNode list"
  queue :: "XEvent list"
  trace :: "Effect list"
  shouldExit :: bool
  mouse :: "int \<times> int"
  doubleClickActive :: bool
  lastClickTime :: Time
  lastX :: int
  lastY :: int

datatype AtomName =
  ATOM_WIN_STATE | ATOM_WIN_LAYER | ATOM_WM_CHANGE_STATE | ATOM_NET_ACTIVE_WINDOW
  | ATOM_NET_WM_DESKTOP | ATOM_NET_CLOSE_WINDOW | ATOM_NET_MOVERESIZE_WINDOW
  | ATOM_NET_WM_STATE | ATOM_JWM_RESTART | ATOM_JWM_EXIT | ATOM_NET_CURRENT_DESKTOP
  | ATOM_NET_SYSTEM_TRAY_OPCODE | ATOM_NET_WM_STATE_STICKY
  | ATOM_NET_WM_STATE_MAXIMIZED_VERT | ATOM_NET_WM_STATE_MAXIMIZED_HORZ
  | ATOM_NET_WM_STATE_SHADED | ATOM_WM_COLORMAP_WINDOWS | ATOM_NET_WM_ICON
  | ATOM_NET_WM_NAME | ATOM_NET_WM_STRUT_PARTIAL | ATOM_NET_WM_STRUT

datatype FocusModel = FOCUS_SLOPPY | FOCUS_CLICK

datatype KeyKind =
  KEY_NONE | KEY_EXEC | KEY_DESKTOP | KEY_NEXT | KEY_NEXT_STACKED | KEY_CLOSE | KEY_SHADE
  | KEY_MOVE | KEY_RESIZE | KEY_MIN | KEY_MAX | KEY_ROOT | KEY_WIN | KEY_RESTART | KEY_EXIT

text \<open>
  What \<^verbatim>\<open>event.c\<close> takes from the rest of the window manager: globals set elsewhere, the
  atom table, the two masks of the legacy state protocol, and the results of functions of
  other modules. A function whose result may depend on what has happened so far (an
  interactive move, a menu) is given the state, trace included.
  \<open>GetBorderSize\<close> returns (north, south, east, west); \<open>GetKey\<close> returns the key action
  (\<^verbatim>\<open>key & 0xFF\<close>) and its argument (\<^verbatim>\<open>key >> 8\<close>); \<open>AddClientWindow\<close> returns the record of the
  adopted window, if it adopts it; \<open>MoveClient_result\<close> says whether the interactive move
  started by \<^verbatim>\<open>MoveClient\<close> moved the window (its return value).
\<close>

record Env =
  atoms :: "AtomName \<Rightarrow> Atom"
  rootWindow :: Window
  rootWidth :: int
  rootHeight :: int
  borderWidth :: int
  titleHeight :: int
  desktopCount :: nat
  doubleClickSpeed :: int
  doubleClickDelta :: int
  focusModel :: FocusModel
  haveShape :: bool
  shapeEvent :: nat
  WIN_STATE_STICKY :: int
  WIN_STATE_HIDDEN :: int
  GetBorderSize :: "ClientNode \<Rightarrow> int \<times> int \<times> int \<times> int"
  GetGravityDelta :: "ClientNode \<Rightarrow> int \<times> int"
  ConstrainSize :: "ClientNode \<Rightarrow> ClientNode"
  GetBorderActionType :: "ClientNode \<Rightarrow> int \<Rightarrow> int \<Rightarrow> BorderActionType"
  GetFrameCursor :: "BorderActionType \<Rightarrow> nat"
  GetKey :: "XKeyEvent \<Rightarrow> KeyKind \<times> nat"
  GetActiveClient :: "World \<Rightarrow> nat option"
  MoveClient_result :: "World \<Rightarrow> nat \<Rightarrow> int \<Rightarrow> int \<Rightarrow> bool"
  ShowRootMenu_result :: "World \<Rightarrow> nat \<Rightarrow> int \<Rightarrow> int \<Rightarrow> bool"
  CheckSwallowMap :: "World \<Rightarrow> XMapEvent \<Rightarrow> bool"
  AddClientWindow :: "World \<Rightarrow> Window \<Rightarrow> ClientNode option"
  HandleDockDestroy :: "World \<Rightarrow> Window \<Rightarrow> bool"
  HandleDockSelectionClear :: "World \<Rightarrow> XSelectionClearEvent \<Rightarrow> bool"
  HandleDockResizeRequest :: "World \<Rightarrow> XResizeRequestEvent \<Rightarrow> bool"
  ProcessTrayEvent :: "World \<Rightarrow> XEvent \<Rightarrow> bool"
  ProcessDialogEvent :: "World \<Rightarrow> XEvent \<Rightarrow> bool"
  ProcessSwallowEvent :: "World \<Rightarrow> XEvent \<Rightarrow> bool"
  ProcessPopupEvent :: "World \<Rightarrow> XEvent \<Rightarrow> bool"

subsection \<open>Reading and writing the state\<close>

definition client :: "World \<Rightarrow> nat \<Rightarrow> ClientNode" where
  "client w np = clients w ! np"

definition update_client :: "nat \<Rightarrow> (ClientNode \<Rightarrow> ClientNode) \<Rightarrow> World \<Rightarrow> World" where
  "update_client np f w = w\<lparr>clients := (clients w)[np := f (clients w ! np)]\<rparr>"

definition emit :: "Effect \<Rightarrow> World \<Rightarrow> World" where
  "emit e w = w\<lparr>trace := trace w @ [e]\<rparr>"

text \<open>A call of a function of another module, on the client \<open>np\<close> and further arguments.\<close>

definition call :: "string \<Rightarrow> int list \<Rightarrow> World \<Rightarrow> World" where
  "call name args w = emit (Collab name args) w"

definition call_np :: "string \<Rightarrow> nat \<Rightarrow> int list \<Rightarrow> World \<Rightarrow> World" where
  "call_np name np args w = call name (int (c_window (client w np)) # args) w"

text \<open>\<^verbatim>\<open>if(np->controller) (np->controller)(flag);\<close>\<close>

definition run_controller :: "nat \<Rightarrow> bool \<Rightarrow> World \<Rightarrow> World" where
  "run_controller np flag w =
     (if c_controller (client w np) then emit (Controller (c_window (client w np)) flag) w
      else w)"

definition SetMousePosition :: "int \<Rightarrow> int \<Rightarrow> World \<Rightarrow> World" where
  "SetMousePosition mx my w = w\<lparr>mouse := (mx, my)\<rparr>"

fun find_index :: "('a \<Rightarrow> bool) \<Rightarrow> 'a list \<Rightarrow> nat option" where
  "find_index P [] = None"
| "find_index P (a # as) =
     (if P a then Some 0 else map_option Suc (find_index P as))"

text \<open>
  Modelled from the spec: the client registry (\<^verbatim>\<open>FindClientByWindow\<close>, \<^verbatim>\<open>FindClientByParent\<close>
  of \<^verbatim>\<open>client.c\<close>) is not available. The spec describes it as an "external lookup by primary
  window or by decoration/parent window"; the callers here test \<^verbatim>\<open>np->window == event->window\<close>
  and \<^verbatim>\<open>np->parent == event->window\<close> on what \<^verbatim>\<open>FindClientByWindow\<close> returns, so it finds a
  client by its primary window first and by its decoration window otherwise.
\<close>

definition FindClientByParent :: "World \<Rightarrow> Window \<Rightarrow> nat option" where
  "FindClientByParent w p = find_index (\<lambda>c. c_parent c = p) (clients w)"

definition FindClientByWindow :: "World \<Rightarrow> Window \<Rightarrow> nat option" where
  "FindClientByWindow w win =
     (case find_index (\<lambda>c. c_window c = win) (clients w) of
        Some np \<Rightarrow> Some np
      | None \<Rightarrow> FindClientByParent w win)"

subsection \<open>Functions of other modules that change a client\<close>

text \<open>
  Setting (\<open>b\<close> true) or clearing one flag of \<^verbatim>\<open>np->state.status\<close>.
\<close>

definition set_status :: "StatusFlag \<Rightarrow> bool \<Rightarrow> ClientNode \<Rightarrow> ClientNode" where
  "set_status f b c =
     c\<lparr>c_status := (if b then insert f (c_status c) else c_status c - {f})\<rparr>"

text \<open>
  Modelled from the spec: \<^verbatim>\<open>SetClientSticky\<close> (\<^verbatim>\<open>client.c\<close>) is not available. The spec lists
  sticky among the status flags of a window and says that the requests calling this function
  "mark sticky" or remove it: the model sets or clears \<open>STAT_STICKY\<close>, and records the call.
\<close>

definition SetClientSticky :: "nat \<Rightarrow> bool \<Rightarrow> World \<Rightarrow> World" where
  "SetClientSticky np isSticky w =
     update_client np (set_status STAT_STICKY isSticky)
       (call_np ''SetClientSticky'' np [if isSticky then 1 else 0] w)"

text \<open>
  Modelled from the spec: \<^verbatim>\<open>MaximizeClient\<close> (\<^verbatim>\<open>client.c\<close>) is not available. The spec calls it
  the "maximize toggle which is inherently a flip": the model flips \<open>STAT_MAXIMIZED\<close>, and
  records the call.
\<close>

definition MaximizeClient :: "nat \<Rightarrow> World \<Rightarrow> World" where
  "MaximizeClient np w =
     update_client np (\<lambda>c. set_status STAT_MAXIMIZED (STAT_MAXIMIZED \<notin> c_status c) c)
       (call_np ''MaximizeClient'' np [] w)"

text \<open>
  Modelled from the spec: \<^verbatim>\<open>ShadeClient\<close> and \<^verbatim>\<open>UnshadeClient\<close> (\<^verbatim>\<open>client.c\<close>) are not
  available. The spec lists shaded among the status flags and has the callers shade and
  unshade a window through them: the model sets, respectively clears, \<open>STAT_SHADED\<close>, and
  records the call.
\<close>

definition ShadeClient :: "nat \<Rightarrow> World \<Rightarrow> World" where
  "ShadeClient np w =
     update_client np (set_status STAT_SHADED True) (call_np ''ShadeClient'' np [] w)"

definition UnshadeClient :: "nat \<Rightarrow> World \<Rightarrow> World" where
  "UnshadeClient np w =
     update_client np (set_status STAT_SHADED False) (call_np ''UnshadeClient'' np [] w)"

subsection \<open>\<^verbatim>\<open>HandleNetWMState\<close>\<close>

text \<open>
  One round of the loop \<^verbatim>\<open>for(x = 1; x <= 2; x++)\<close>: the flags are
  (actionMaximize, actionStick, actionShade).
\<close>

definition scan_state_atom :: "Env \<Rightarrow> int \<Rightarrow> bool \<times> bool \<times> bool \<Rightarrow> bool \<times> bool \<times> bool" where
  "scan_state_atom env a acts =
     (case acts of (actionMaximize, actionStick, actionShade) \<Rightarrow>
        if a = int (atoms env ATOM_NET_WM_STATE_STICKY) then (actionMaximize, True, actionShade)
        else if a = int (atoms env ATOM_NET_WM_STATE_MAXIMIZED_VERT) then (True, actionStick, actionShade)
        else if a = int (atoms env ATOM_NET_WM_STATE_MAXIMIZED_HORZ) then (True, actionStick, actionShade)
        else if a = int (atoms env ATOM_NET_WM_STATE_SHADED) then (actionMaximize, actionStick, True)
        else acts)"

definition doif :: "bool \<Rightarrow> (World \<Rightarrow> World) \<Rightarrow> World \<Rightarrow> World" where
  "doif b f w = (if b then f w else w)"

definition HandleNetWMState :: "Env \<Rightarrow> XClientMessageEvent \<Rightarrow> nat \<Rightarrow> World \<Rightarrow> World" where
  "HandleNetWMState env event np w =
     (case scan_state_atom env (l2 event) (scan_state_atom env (l1 event) (False, False, False)) of
        (actionMaximize, actionStick, actionShade) \<Rightarrow>
          if l0 event = 0 then
            (let w1 = doif actionStick (SetClientSticky np False) w;
                 w2 = doif (actionMaximize \<and> STAT_MAXIMIZED \<in> c_status (client w1 np))
                        (MaximizeClient np) w1
             in doif actionShade (UnshadeClient np) w2)
          else if l0 event = 1 then
            (let w1 = doif actionStick (SetClientSticky np True) w;
                 w2 = doif (actionMaximize \<and> STAT_MAXIMIZED \<notin> c_status (client w1 np))
                        (MaximizeClient np) w1
             in doif actionShade (ShadeClient np) w2)
          else if l0 event = 2 then
            (let w1 = doif actionStick
                        (\<lambda>w. if STAT_STICKY \<in> c_status (client w np)
                              then SetClientSticky np False w else SetClientSticky np True w) w;
                 w2 = doif actionMaximize (MaximizeClient np) w1
             in doif actionShade
                  (\<lambda>w. if STAT_SHADED \<in> c_status (client w np)
                        then UnshadeClient np w else ShadeClient np w) w2)
          else w)"


subsection \<open>Constants of the X protocol (\<^verbatim>\<open>X.h\<close>, \<^verbatim>\<open>Xatom.h\<close>, \<^verbatim>\<open>Xutil.h\<close>)\<close>

abbreviation (input) CWX :: nat where "CWX \<equiv> 1"
abbreviation (input) CWY :: nat where "CWY \<equiv> 2"
abbreviation (input) CWWidth :: nat where "CWWidth \<equiv> 4"
abbreviation (input) CWHeight :: nat where "CWHeight \<equiv> 8"
abbreviation (input) Above :: int where "Above \<equiv> 0"
abbreviation (input) Button1 :: nat where "Button1 \<equiv> 1"
abbreviation (input) Button2 :: nat where "Button2 \<equiv> 2"
abbreviation (input) Button3 :: nat where "Button3 \<equiv> 3"
abbreviation (input) Button4 :: nat where "Button4 \<equiv> 4"
abbreviation (input) Button5 :: nat where "Button5 \<equiv> 5"
abbreviation (input) Mod1Mask :: nat where "Mod1Mask \<equiv> 8"
abbreviation (input) WithdrawnState :: int where "WithdrawnState \<equiv> 0"
abbreviation (input) NormalState :: int where "NormalState \<equiv> 1"
abbreviation (input) IconicState :: int where "IconicState \<equiv> 3"
abbreviation (input) XA_WM_HINTS :: Atom where "XA_WM_HINTS \<equiv> 35"
abbreviation (input) XA_WM_CLIENT_MACHINE :: Atom where "XA_WM_CLIENT_MACHINE \<equiv> 36"
abbreviation (input) XA_WM_ICON_NAME :: Atom where "XA_WM_ICON_NAME \<equiv> 37"
abbreviation (input) XA_WM_NAME :: Atom where "XA_WM_NAME \<equiv> 39"
abbreviation (input) XA_WM_NORMAL_HINTS :: Atom where "XA_WM_NORMAL_HINTS \<equiv> 40"

subsection \<open>The event queue (Xlib)\<close>

text \<open>
  \<^verbatim>\<open>XCheckTypedEvent(display, MotionNotify, &e)\<close>: the first queued motion event, if there is
  one, is removed from the queue and returned; the other events stay, in order.
\<close>

fun JXCheckTypedEvent_MotionNotify :: "XEvent list \<Rightarrow> (XMotionEvent \<times> XEvent list) option" where
  "JXCheckTypedEvent_MotionNotify [] = None"
| "JXCheckTypedEvent_MotionNotify (e # q) =
     (case e of
        MotionNotify m \<Rightarrow> Some (m, q)
      | _ \<Rightarrow> map_option (\<lambda>(m, q'). (m, e # q')) (JXCheckTypedEvent_MotionNotify q))"

text \<open>
  \<^verbatim>\<open>XCheckTypedWindowEvent(display, win, DestroyNotify, &e)\<close>: the same for the first queued
  destroy notification reported on \<open>win\<close>.
\<close>

fun JXCheckTypedWindowEvent_DestroyNotify ::
  "Window \<Rightarrow> XEvent list \<Rightarrow> (XDestroyWindowEvent \<times> XEvent list) option" where
  "JXCheckTypedWindowEvent_DestroyNotify win [] = None"
| "JXCheckTypedWindowEvent_DestroyNotify win (e # q) =
     (let later = map_option (\<lambda>(d, q'). (d, e # q')) (JXCheckTypedWindowEvent_DestroyNotify win q)
      in case e of
           DestroyNotify d \<Rightarrow> if d_event d = win then Some (d, q) else later
         | _ \<Rightarrow> later)"

lemma JXCheckTypedEvent_MotionNotify_length:
  "JXCheckTypedEvent_MotionNotify q = Some (m, q') \<Longrightarrow> length q' < length q"
  by (induction q arbitrary: m q') (auto split: XEvent.splits)

subsection \<open>More functions of other modules\<close>

text \<open>
  Modelled from the spec: \<^verbatim>\<open>SetClientDesktop\<close> (\<^verbatim>\<open>client.c\<close>) is not available. The spec has the
  caller "reassign desktop" through it: the model writes the desktop of the client, and
  records the call.
\<close>

definition SetClientDesktop :: "nat \<Rightarrow> int \<Rightarrow> World \<Rightarrow> World" where
  "SetClientDesktop np d w =
     update_client np (\<lambda>c. c\<lparr>c_desktop := d\<rparr>) (call_np ''SetClientDesktop'' np [d] w)"

text \<open>
  Modelled from the spec: \<^verbatim>\<open>RemoveClient\<close> (\<^verbatim>\<open>client.c\<close>) is not available. By the spec a client
  record is "destroyed on window destruction": the model takes the record out of the
  registry, and records the call.
\<close>

definition RemoveClient :: "nat \<Rightarrow> World \<Rightarrow> World" where
  "RemoveClient np w =
     (call_np ''RemoveClient'' np [] w)\<lparr>clients := take np (clients w) @ drop (Suc np) (clients w)\<rparr>"

text \<open>
  \<^verbatim>\<open>MoveClient\<close> (\<^verbatim>\<open>move.c\<close>, not available) runs an interactive move and returns whether the
  window was moved. The call is recorded; its result is the environment's.
\<close>

definition MoveClient :: "Env \<Rightarrow> nat \<Rightarrow> int \<Rightarrow> int \<Rightarrow> World \<Rightarrow> bool \<times> World" where
  "MoveClient env np mx my w =
     (MoveClient_result env w np mx my, call_np ''MoveClient'' np [mx, my] w)"

definition ShowRootMenu :: "Env \<Rightarrow> nat \<Rightarrow> int \<Rightarrow> int \<Rightarrow> World \<Rightarrow> bool \<times> World" where
  "ShowRootMenu env button mx my w =
     (ShowRootMenu_result env w button mx my, call ''ShowRootMenu'' [int button, mx, my] w)"

subsection \<open>\<^verbatim>\<open>DispatchBorderButtonEvent\<close>\<close>

text \<open>
  \<^verbatim>\<open>abs(event->time - lastClickTime)\<close>: the difference of two unsigned times, converted to
  \<^verbatim>\<open>int\<close> for \<^verbatim>\<open>abs\<close>. \<open>c_abs v\<close> is \<^verbatim>\<open>abs\<close> of the \<^verbatim>\<open>int\<close> with the bits of \<open>v\<close>: its magnitude,
  and \<^verbatim>\<open>INT_MIN\<close> for \<^verbatim>\<open>INT_MIN\<close> (which C leaves undefined and two's complement negation
  yields).
\<close>

definition c_abs :: "32 word \<Rightarrow> int" where
  "c_abs v = (if sint v < 0 then sint (- v) else sint v)"

text \<open>The test of the double click, lines 1050 to 1054.\<close>

definition is_double_click :: "Env \<Rightarrow> XButtonEvent \<Rightarrow> World \<Rightarrow> bool" where
  "is_double_click env event w =
     (doubleClickActive w
      \<and> c_abs (b_time event - lastClickTime w) > 0
      \<and> c_abs (b_time event - lastClickTime w) \<le> doubleClickSpeed env
      \<and> \<bar>b_x event - lastX w\<bar> \<le> doubleClickDelta env
      \<and> \<bar>b_y event - lastY w\<bar> \<le> doubleClickDelta env)"

definition DispatchBorderButtonEvent :: "Env \<Rightarrow> XButtonEvent \<Rightarrow> nat \<Rightarrow> World \<Rightarrow> World" where
  "DispatchBorderButtonEvent env event np w =
     (let action = GetBorderActionType env (client w np) (b_x event) (b_y event)
      in case fst action of
           BA_RESIZE \<Rightarrow>
             if b_type event = ButtonPress
             then call_np ''ResizeClient'' np [int (snd action), b_x event, b_y event] w
             else w
         | BA_MOVE \<Rightarrow>
             if b_type event = ButtonPress then
               if is_double_click env event w
               then (MaximizeClient np w)\<lparr>doubleClickActive := False\<rparr>
               else
                 (case MoveClient env np (b_x event) (b_y event) w of
                    (moved, w1) \<Rightarrow>
                      if moved then w1\<lparr>doubleClickActive := False\<rparr>
                      else w1\<lparr>doubleClickActive := True, lastClickTime := b_time event,
                              lastX := b_x event, lastY := b_y event\<rparr>)
             else w
         | BA_MENU \<Rightarrow>
             if b_type event = ButtonPress then
               (let bsize = (if BORDER_OUTLINE \<in> c_border (client w np) then borderWidth env else 0)
                in call_np ''ShowWindowMenu'' np
                     [c_x (client w np) + b_x event - bsize,
                      c_y (client w np) + b_y event - titleHeight env - bsize] w)
             else w
         | BA_CLOSE \<Rightarrow>
             if b_type event = ButtonRelease then call_np ''DeleteClient'' np [] w else w
         | BA_MAXIMIZE \<Rightarrow>
             if b_type event = ButtonRelease then MaximizeClient np w else w
         | BA_MINIMIZE \<Rightarrow>
             if b_type event = ButtonRelease then call_np ''MinimizeClient'' np [] w else w
         | BA_NONE \<Rightarrow> w)"

subsection \<open>\<^verbatim>\<open>HandleButtonEvent\<close>\<close>

definition HandleButtonEvent :: "Env \<Rightarrow> XButtonEvent \<Rightarrow> World \<Rightarrow> World" where
  "HandleButtonEvent env event w =
     call ''UpdatePager'' []
       (case FindClientByParent w (b_window event) of
          Some np \<Rightarrow>
            (let w1 = call_np ''RaiseClient'' np [] w;
                 w2 = doif (focusModel env = FOCUS_CLICK) (call_np ''FocusClient'' np []) w1
             in if b_button event = Button1 then DispatchBorderButtonEvent env event np w2
                else if b_button event = Button2
                  then snd (MoveClient env np (b_x event) (b_y event) w2)
                else if b_button event = Button3 then
                  (let mx = b_x event + c_x (client w2 np);
                       my = b_y event + c_y (client w2 np);
                       mx = (if BORDER_OUTLINE \<in> c_border (client w2 np) then mx - borderWidth env else mx);
                       my = (if BORDER_OUTLINE \<in> c_border (client w2 np) then my - borderWidth env else my);
                       my = (if BORDER_TITLE \<in> c_border (client w2 np) then my - titleHeight env else my)
                   in call_np ''ShowWindowMenu'' np [mx, my] w2)
                else if b_button event = Button4 then ShadeClient np w2
                else if b_button event = Button5 then UnshadeClient np w2
                else w2)
        | None \<Rightarrow>
            if b_window event = rootWindow env \<and> b_type event = ButtonPress then
              (case ShowRootMenu env (b_button event) (b_x event) (b_y event) w of
                 (shown, w1) \<Rightarrow>
                   if \<not> shown then
                     (if b_button event = 4 then call ''PreviousDesktop'' [] w1
                      else if b_button event = 5 then call ''NextDesktop'' [] w1
                      else w1)
                   else w1)
            else
              (case FindClientByWindow w (b_window event) of
                 Some np \<Rightarrow>
                   emit (Display JXAllowEvents)
                     (if b_button event = Button1 \<or> b_button event = Button2
                         \<or> b_button event = Button3 then
                        (let w1 = call_np ''RaiseClient'' np [] w;
                             w2 = doif (focusModel env = FOCUS_CLICK) (call_np ''FocusClient'' np []) w1
                         in if b_state event AND Mod1Mask \<noteq> 0
                            then snd (MoveClient env np (b_x event) (b_y event) w2)
                            else w2)
                      else w)
               | None \<Rightarrow> w))"


subsection \<open>\<^verbatim>\<open>HandleKeyPress\<close>\<close>

definition HandleKeyPress :: "Env \<Rightarrow> XKeyEvent \<Rightarrow> World \<Rightarrow> World" where
  "HandleKeyPress env event w =
     (let key = GetKey env event; active = GetActiveClient env w;
          with_active = (\<lambda>f. case active of Some np \<Rightarrow> f np w | None \<Rightarrow> w)
      in case fst key of
           KEY_EXEC \<Rightarrow> call ''RunKeyCommand'' [] w
         | KEY_DESKTOP \<Rightarrow>
             if snd key \<noteq> 0 then call ''ChangeDesktop'' [int (snd key) - 1] w
             else call ''NextDesktop'' [] w
         | KEY_NEXT \<Rightarrow> call ''FocusNext'' [] w
         | KEY_NEXT_STACKED \<Rightarrow> call ''FocusNextStackedCircular'' [] w
         | KEY_CLOSE \<Rightarrow> with_active (\<lambda>np. call_np ''DeleteClient'' np [])
         | KEY_SHADE \<Rightarrow>
             with_active (\<lambda>np w. if STAT_SHADED \<in> c_status (client w np)
                                  then UnshadeClient np w else ShadeClient np w)
         | KEY_MOVE \<Rightarrow> with_active (\<lambda>np. call_np ''MoveClientKeyboard'' np [])
         | KEY_RESIZE \<Rightarrow> with_active (\<lambda>np. call_np ''ResizeClientKeyboard'' np [])
         | KEY_MIN \<Rightarrow> with_active (\<lambda>np. call_np ''MinimizeClient'' np [])
         | KEY_MAX \<Rightarrow> with_active MaximizeClient
         | KEY_ROOT \<Rightarrow> snd (ShowRootMenu env 1 0 0 w)
         | KEY_WIN \<Rightarrow>
             with_active (\<lambda>np w. call_np ''ShowWindowMenu'' np
                                   [c_x (client w np), c_y (client w np)] w)
         | KEY_RESTART \<Rightarrow> call ''Restart'' [] w
         | KEY_EXIT \<Rightarrow> call ''Exit'' [] w
         | KEY_NONE \<Rightarrow> w)"

subsection \<open>\<^verbatim>\<open>HandleConfigureRequest\<close>\<close>

text \<open>
  Lines 419 to 435: the four guarded assignments, with the flag \<^verbatim>\<open>changed\<close>.
\<close>

definition merge_request :: "XConfigureRequestEvent \<Rightarrow> ClientNode \<Rightarrow> ClientNode \<times> bool" where
  "merge_request event c =
     (let (c, changed) =
            (if cr_value_mask event AND CWWidth \<noteq> 0 \<and> cr_width event \<noteq> c_width c
             then (c\<lparr>c_width := cr_width event\<rparr>, True) else (c, False));
          (c, changed) =
            (if cr_value_mask event AND CWHeight \<noteq> 0 \<and> cr_height event \<noteq> c_height c
             then (c\<lparr>c_height := cr_height event\<rparr>, True) else (c, changed));
          (c, changed) =
            (if cr_value_mask event AND CWX \<noteq> 0 \<and> cr_x event \<noteq> c_x c
             then (c\<lparr>c_x := cr_x event\<rparr>, True) else (c, changed))
      in if cr_value_mask event AND CWY \<noteq> 0 \<and> cr_y event \<noteq> c_y c
         then (c\<lparr>c_y := cr_y event\<rparr>, True) else (c, changed))"

text \<open>The two sets of window changes of lines 443 to 459, from the record after
  \<^verbatim>\<open>ConstrainSize\<close> (\<open>c\<close>), the insets and the decoration window read before it (\<open>sibling\<close>).\<close>

definition decoration_changes :: "ClientNode \<Rightarrow> int \<times> int \<times> int \<times> int \<Rightarrow> Window \<Rightarrow> XWindowChanges" where
  "decoration_changes c insets sibling =
     (case insets of (north, south, east, west) \<Rightarrow>
        \<lparr>wc_x = c_x c, wc_y = c_y c,
         wc_width = c_width c + east + west, wc_height = c_height c + north + south,
         wc_border_width = 0, wc_sibling = sibling, wc_stack_mode = Above\<rparr>)"

definition content_changes :: "ClientNode \<Rightarrow> int \<times> int \<times> int \<times> int \<Rightarrow> Window \<Rightarrow> XWindowChanges" where
  "content_changes c insets sibling =
     (case insets of (north, south, east, west) \<Rightarrow>
        \<lparr>wc_x = west, wc_y = north, wc_width = c_width c, wc_height = c_height c,
         wc_border_width = 0, wc_sibling = sibling, wc_stack_mode = Above\<rparr>)"

text \<open>Lines 463 to 470: the request for a window that is not a client's is passed on,
  its size limited to the root window's.\<close>

definition pass_on_request :: "Env \<Rightarrow> XConfigureRequestEvent \<Rightarrow> World \<Rightarrow> World" where
  "pass_on_request env event w =
     emit (Display (JXConfigureWindow (cr_window event) (cr_value_mask event)
             \<lparr>wc_x = cr_x event, wc_y = cr_y event,
              wc_width = (if cr_width event > rootWidth env then rootWidth env
                          else cr_width event),
              wc_height = (if cr_height event > rootHeight env then rootHeight env
                           else cr_height event),
              wc_border_width = cr_border_width event,
              wc_sibling = cr_above event, wc_stack_mode = cr_detail event\<rparr>)) w"

definition HandleConfigureRequest :: "Env \<Rightarrow> XConfigureRequestEvent \<Rightarrow> World \<Rightarrow> World" where
  "HandleConfigureRequest env event w =
     (case FindClientByWindow w (cr_window event) of
        Some np \<Rightarrow>
          if c_window (client w np) = cr_window event then
            (let w1 = run_controller np False w;
                 (c, changed) = merge_request event (client w1 np)
             in if \<not> changed then w1
                else
                  (let insets = GetBorderSize env c;
                       sibling = c_parent c;
                       c' = ConstrainSize env c;
                       w2 = update_client np (\<lambda>_. c') w1;
                       w3 = emit (Display (JXConfigureWindow (c_parent c') (cr_value_mask event)
                                    (decoration_changes c' insets sibling))) w2
                   in emit (Display (JXConfigureWindow (c_window c') (cr_value_mask event)
                              (content_changes c' insets sibling))) w3))
          else pass_on_request env event w
      | None \<Rightarrow> pass_on_request env event w)"

subsection \<open>Crossing, expose, property, colormap and motion events\<close>

definition HandleEnterNotify :: "Env \<Rightarrow> XCrossingEvent \<Rightarrow> World \<Rightarrow> World" where
  "HandleEnterNotify env event w =
     (let w0 = SetMousePosition (x_x_root event) (x_y_root event) w
      in case FindClientByWindow w0 (x_window event) of
           Some np \<Rightarrow>
             (let w1 = doif (STAT_ACTIVE \<notin> c_status (client w0 np) \<and> focusModel env = FOCUS_SLOPPY)
                         (call_np ''FocusClient'' np []) w0
              in if c_parent (client w1 np) = x_window event then
                   (let action = GetBorderActionType env (client w1 np) (x_x event) (x_y event);
                        w2 = update_client np (\<lambda>c. c\<lparr>c_borderAction := action\<rparr>) w1
                    in emit (Display (JXDefineCursor (c_parent (client w2 np))
                               (GetFrameCursor env action))) w2)
                 else if c_borderAction (client w1 np) \<noteq> (BA_NONE, 0) then
                   update_client np (\<lambda>c. c\<lparr>c_borderAction := (BA_NONE, 0)\<rparr>)
                     (call ''SetDefaultCursor'' [int (c_parent (client w1 np))] w1)
                 else w1)
         | None \<Rightarrow> w0)"

definition HandleLeaveNotify :: "Env \<Rightarrow> XCrossingEvent \<Rightarrow> World \<Rightarrow> World" where
  "HandleLeaveNotify env event w =
     (let w0 = SetMousePosition (x_x_root event) (x_y_root event) w
      in case FindClientByParent w0 (x_window event) of
           Some np \<Rightarrow> call ''SetDefaultCursor'' [int (c_parent (client w0 np))] w0
         | None \<Rightarrow> w0)"

definition HandleExpose :: "Env \<Rightarrow> XExposeEvent \<Rightarrow> World \<Rightarrow> bool \<times> World" where
  "HandleExpose env event w =
     (case FindClientByWindow w (e_window event) of
        Some np \<Rightarrow>
          if e_window event = c_parent (client w np) then (True, call_np ''DrawBorder'' np [] w)
          else if e_window event = c_window (client w np)
                  \<and> STAT_WMDIALOG \<in> c_status (client w np) then (False, w)
          else (True, w)
      | None \<Rightarrow> (e_count event \<noteq> 0, w))"

definition HandlePropertyNotify :: "Env \<Rightarrow> XPropertyEvent \<Rightarrow> World \<Rightarrow> bool \<times> World" where
  "HandlePropertyNotify env event w =
     (case FindClientByWindow w (p_window event) of
        Some np \<Rightarrow>
          (let (changed, w1) =
                 (if p_atom event = XA_WM_NAME then (True, call_np ''ReadWMName'' np [] w)
                  else if p_atom event = XA_WM_NORMAL_HINTS
                    then (True, call_np ''ReadWMNormalHints'' np [] w)
                  else if p_atom event = XA_WM_HINTS \<or> p_atom event = XA_WM_ICON_NAME
                          \<or> p_atom event = XA_WM_CLIENT_MACHINE then (False, w)
                  else if p_atom event = atoms env ATOM_WM_COLORMAP_WINDOWS
                    then (False, call_np ''UpdateClientColormap'' np []
                                   (call_np ''ReadWMColormaps'' np [] w))
                  else if p_atom event = atoms env ATOM_NET_WM_ICON
                    then (True, call_np ''LoadIcon'' np [] w)
                  else if p_atom event = atoms env ATOM_NET_WM_NAME
                    then (True, call_np ''ReadWMName'' np [] w)
                  else if p_atom event = atoms env ATOM_NET_WM_STRUT_PARTIAL
                    then (False, call_np ''ReadClientStrut'' np [] w)
                  else if p_atom event = atoms env ATOM_NET_WM_STRUT
                    then (False, call_np ''ReadClientStrut'' np [] w)
                  else (False, w));
               w2 = doif changed
                      (\<lambda>w. call ''UpdatePager'' [] (call ''UpdateTaskBar'' []
                              (call_np ''DrawBorder'' np [] w))) w1
           in (STAT_WMDIALOG \<notin> c_status (client w2 np), w2))
      | None \<Rightarrow> (True, w))"

definition HandleColormapChange :: "Env \<Rightarrow> XColormapEvent \<Rightarrow> World \<Rightarrow> World" where
  "HandleColormapChange env event w =
     (if cc_new event then
        (case FindClientByWindow w (cc_window event) of
           Some np \<Rightarrow>
             call_np ''UpdateClientColormap'' np []
               (update_client np (\<lambda>c. c\<lparr>c_cmap := cc_colormap event\<rparr>) w)
         | None \<Rightarrow> w)
      else w)"

definition HandleMotionNotify :: "Env \<Rightarrow> XMotionEvent \<Rightarrow> World \<Rightarrow> World" where
  "HandleMotionNotify env event w =
     (if m_is_hint event then w
      else
        (let w0 = SetMousePosition (m_x_root event) (m_y_root event) w
         in case FindClientByParent w0 (m_window event) of
              Some np \<Rightarrow>
                if BORDER_OUTLINE \<in> c_border (client w0 np) then
                  (let action = GetBorderActionType env (client w0 np) (m_x event) (m_y event)
                   in if c_borderAction (client w0 np) \<noteq> action then
                        (let w1 = update_client np (\<lambda>c. c\<lparr>c_borderAction := action\<rparr>) w0
                         in emit (Display (JXDefineCursor (c_parent (client w1 np))
                                    (GetFrameCursor env action))) w1)
                      else w0)
                else w0
            | None \<Rightarrow> w0))"

definition HandleShapeEvent :: "Env \<Rightarrow> Window \<Rightarrow> World \<Rightarrow> World" where
  "HandleShapeEvent env win w =
     (case FindClientByWindow w win of
        Some np \<Rightarrow> call_np ''SetShape'' np [] w
      | None \<Rightarrow> w)"

definition HandleSelectionClear :: "Env \<Rightarrow> XSelectionClearEvent \<Rightarrow> World \<Rightarrow> bool \<times> World" where
  "HandleSelectionClear env event w =
     (HandleDockSelectionClear env w event,
      call ''HandleDockSelectionClear'' [int (sc_window event)] w)"


subsection \<open>\<^verbatim>\<open>HandleNetMoveResize\<close>\<close>

text \<open>
  The locals \<^verbatim>\<open>x\<close>, \<^verbatim>\<open>y\<close>, \<^verbatim>\<open>width\<close> and \<^verbatim>\<open>height\<close> are \<^verbatim>\<open>long\<close>, the fields of the record they
  are stored into (lines 767 to 770) are \<^verbatim>\<open>int\<close>, and the width and height parameters of
  \<^verbatim>\<open>XMoveResizeWindow\<close> are \<^verbatim>\<open>unsigned int\<close>. \<open>c_int v\<close> is the \<^verbatim>\<open>int\<close> with the low 32 bits of
  \<open>v\<close>: what a store of a wider value into an \<^verbatim>\<open>int\<close> keeps, and what \<^verbatim>\<open>int\<close> arithmetic yields
  in two's complement. \<open>c_unsigned v\<close> is the \<^verbatim>\<open>unsigned int\<close> an \<^verbatim>\<open>int\<close> \<open>v\<close> converts to. Since
  2 ^ 32 divides the range of a \<^verbatim>\<open>long\<close> of either width, the low 32 bits of the exact
  difference \<open>x - deltax\<close> are those of the difference computed in a \<^verbatim>\<open>long\<close>.
\<close>

definition c_int :: "int \<Rightarrow> int" where
  "c_int v = (v + 2147483648) mod 4294967296 - 2147483648"

definition c_unsigned :: "int \<Rightarrow> nat" where
  "c_unsigned v = nat (v mod 4294967296)"

text \<open>
  \<^verbatim>\<open>data.l[0] >> 8\<close> on a \<^verbatim>\<open>long\<close> is \<open>drop_bit 8\<close>, \<^verbatim>\<open>& 0xFF\<close> is \<open>AND 255\<close>. The local
  \<^verbatim>\<open>gravity\<close> (lines 736 and 757 to 759) is computed here as in the source, which does not
  read it again: \<^verbatim>\<open>GetGravityDelta\<close> (line 762) is given the client only.
\<close>

definition request_gravity :: "XClientMessageEvent \<Rightarrow> ClientNode \<Rightarrow> int" where
  "request_gravity event c =
     (let gravity = l0 event AND 255
      in if gravity = 0 then c_gravity c else gravity)"

definition HandleNetMoveResize :: "Env \<Rightarrow> XClientMessageEvent \<Rightarrow> nat \<Rightarrow> World \<Rightarrow> World" where
  "HandleNetMoveResize env event np w =
     (let c = client w np;
          flags = drop_bit 8 (l0 event);
          rx = (if flags AND 1 \<noteq> 0 then l1 event else c_x c);
          ry = (if flags AND 2 \<noteq> 0 then l2 event else c_y c);
          rwidth = (if flags AND 4 \<noteq> 0 then l3 event else c_width c);
          rheight = (if flags AND 8 \<noteq> 0 then l4 event else c_height c);
          gravity = request_gravity event c;
          (north, south, east, west) = GetBorderSize env c;
          (deltax, deltay) = GetGravityDelta env c;
          rx = rx - deltax;
          ry = ry - deltay;
          c' = c\<lparr>c_x := c_int rx, c_y := c_int ry,
                 c_width := c_int rwidth, c_height := c_int rheight\<rparr>;
          w1 = update_client np (\<lambda>_. c') w;
          w2 = emit (Display (JXMoveResizeWindow (c_parent c')
                       (c_int (c_x c' - west)) (c_int (c_y c' - north))
                       (c_unsigned (c_width c' + east + west))
                       (c_unsigned (c_height c' + north + south)))) w1;
          w3 = emit (Display (JXMoveResizeWindow (c_window c') west north
                       (c_unsigned (c_width c')) (c_unsigned (c_height c')))) w2
      in call_np ''SendConfigureEvent'' np [] (call_np ''WriteState'' np [] w3))"

subsection \<open>\<^verbatim>\<open>HandleClientMessage\<close>\<close>

definition HandleClientMessage :: "Env \<Rightarrow> XClientMessageEvent \<Rightarrow> World \<Rightarrow> World" where
  "HandleClientMessage env event w =
     (case FindClientByWindow w (cm_window event) of
        Some np \<Rightarrow>
          if cm_message_type event = atoms env ATOM_WIN_STATE then
            (let mask = l0 event; flags = l1 event;
                 w1 = doif (mask AND WIN_STATE_STICKY env \<noteq> 0)
                        (SetClientSticky np (flags AND WIN_STATE_STICKY env \<noteq> 0)) w
             in doif (mask AND WIN_STATE_HIDDEN env \<noteq> 0)
                  (\<lambda>w. call ''UpdatePager'' [] (call ''UpdateTaskBar'' []
                          (update_client np
                             (set_status STAT_NOLIST (flags AND WIN_STATE_HIDDEN env \<noteq> 0)) w)))
                  w1)
          else if cm_message_type event = atoms env ATOM_WIN_LAYER then
            call_np ''SetClientLayer'' np [l0 event] w
          else if cm_message_type event = atoms env ATOM_WM_CHANGE_STATE then
            (let w1 = run_controller np False w
             in if l0 event = WithdrawnState then call_np ''SetClientWithdrawn'' np [] w1
                else if l0 event = IconicState then call_np ''MinimizeClient'' np [] w1
                else if l0 event = NormalState then call_np ''RestoreClient'' np [1] w1
                else w1)
          else if cm_message_type event = atoms env ATOM_NET_ACTIVE_WINDOW then
            call_np ''FocusClient'' np [] (call_np ''RestoreClient'' np [1] w)
          else if cm_message_type event = atoms env ATOM_NET_WM_DESKTOP then
            (if l0 event = - 1 then SetClientSticky np True w
             else
               (let w1 = run_controller np False w
                in if l0 event \<ge> 0 \<and> l0 event < int (desktopCount env) then
                     SetClientDesktop np (l0 event)
                       (update_client np (set_status STAT_STICKY False) w1)
                   else w1))
          else if cm_message_type event = atoms env ATOM_NET_CLOSE_WINDOW then
            call_np ''DeleteClient'' np [] w
          else if cm_message_type event = atoms env ATOM_NET_MOVERESIZE_WINDOW then
            HandleNetMoveResize env event np w
          else if cm_message_type event = atoms env ATOM_NET_WM_STATE then
            HandleNetWMState env event np w
          else w
      | None \<Rightarrow>
          if cm_window event = rootWindow env then
            (if cm_message_type event = atoms env ATOM_JWM_RESTART then call ''Restart'' [] w
             else if cm_message_type event = atoms env ATOM_JWM_EXIT then call ''Exit'' [] w
             else if cm_message_type event = atoms env ATOM_NET_CURRENT_DESKTOP
               then call ''ChangeDesktop'' [l0 event] w
             else w)
          else if cm_message_type event = atoms env ATOM_NET_SYSTEM_TRAY_OPCODE then
            call ''HandleDockEvent'' [int (cm_window event)] w
          else w)"

subsection \<open>Map, unmap and destroy\<close>

definition HandleMapRequest :: "Env \<Rightarrow> XMapEvent \<Rightarrow> World \<Rightarrow> World" where
  "HandleMapRequest env event w =
     (if CheckSwallowMap env w event then call ''CheckSwallowMap'' [int (mp_window event)] w
      else
        (let w0 = call ''CheckSwallowMap'' [int (mp_window event)] w
         in call ''RestackClients'' []
              (case FindClientByWindow w0 (mp_window event) of
                 None \<Rightarrow>
                   (let w1 = emit (Display JXGrabServer) (emit (Display JXSync) w0);
                        w2 = call ''AddClientWindow'' [int (mp_window event), 0, 1] w1;
                        w3 = (case AddClientWindow env w1 (mp_window event) of
                                Some c \<Rightarrow>
                                  (let np = length (clients w2);
                                       w2' = w2\<lparr>clients := clients w2 @ [c]\<rparr>
                                   in doif (focusModel env = FOCUS_CLICK)
                                        (call_np ''FocusClient'' np []) w2')
                              | None \<Rightarrow> emit (Display (JXMapWindow (mp_window event))) w2)
                    in emit (Display JXUngrabServer) (emit (Display JXSync) w3))
               | Some np \<Rightarrow>
                   if STAT_MAPPED \<notin> c_status (client w0 np) then
                     (let w1 = update_client np
                                 (\<lambda>c. c\<lparr>c_status := insert STAT_MAPPED (c_status c)
                                                      - {STAT_MINIMIZED} - {STAT_SDESKTOP}\<rparr>) w0;
                          w2 = emit (Display (JXMapWindow (c_parent (client w1 np))))
                                 (emit (Display (JXMapWindow (c_window (client w1 np)))) w1);
                          w3 = call_np ''RaiseClient'' np [] w2;
                          w4 = doif (focusModel env = FOCUS_CLICK) (call_np ''FocusClient'' np []) w3
                      in call ''UpdatePager'' [] (call ''UpdateTaskBar'' [] w4))
                   else w0)))"

definition HandleDestroyNotify :: "Env \<Rightarrow> XDestroyWindowEvent \<Rightarrow> World \<Rightarrow> bool \<times> World" where
  "HandleDestroyNotify env event w =
     (case FindClientByWindow w (d_window event) of
        Some np \<Rightarrow>
          if c_window (client w np) = d_window event
          then (True, RemoveClient np (run_controller np True w))
          else (False, w)
      | None \<Rightarrow>
          (HandleDockDestroy env w (d_window event),
           call ''HandleDockDestroy'' [int (d_window event)] w))"

definition HandleUnmapNotify :: "Env \<Rightarrow> XUnmapEvent \<Rightarrow> World \<Rightarrow> World" where
  "HandleUnmapNotify env event w =
     (case FindClientByWindow w (u_window event) of
        Some np \<Rightarrow>
          if c_window (client w np) = u_window event then
            (case JXCheckTypedWindowEvent_DestroyNotify (c_window (client w np)) (queue w) of
               Some (e, q) \<Rightarrow> snd (HandleDestroyNotify env e (w\<lparr>queue := q\<rparr>))
             | None \<Rightarrow>
                 (let w1 = run_controller np True w
                  in if STAT_MAPPED \<in> c_status (client w1 np) then
                       (let w2 = update_client np (set_status STAT_MAPPED False) w1;
                            w3 = emit (Display (JXUnmapWindow (c_parent (client w2 np)))) w2
                        in call ''UpdatePager'' [] (call ''UpdateTaskBar'' []
                             (call_np ''WriteState'' np [] w3)))
                     else w1))
          else w
      | None \<Rightarrow> call ''HandleDockDestroy'' [int (u_window event)] w)"

subsection \<open>\<^verbatim>\<open>ProcessEvent\<close> and \<^verbatim>\<open>DiscardMotionEvents\<close>\<close>

text \<open>\<^verbatim>\<open>while(JXCheckTypedEvent(display, MotionNotify, event));\<close>\<close>

function drain_motion :: "XMotionEvent \<Rightarrow> XEvent list \<Rightarrow> XMotionEvent \<times> XEvent list" where
  "drain_motion event q =
     (case JXCheckTypedEvent_MotionNotify q of
        None \<Rightarrow> (event, q)
      | Some (e, q') \<Rightarrow> drain_motion e q')"
  by pat_completeness auto
termination
  by (relation "measure (\<lambda>(event, q). length q)")
     (auto dest: JXCheckTypedEvent_MotionNotify_length)

definition ProcessEvent :: "Env \<Rightarrow> XEvent \<Rightarrow> World \<Rightarrow> World" where
  "ProcessEvent env event w =
     (case event of
        ButtonEvent e \<Rightarrow> HandleButtonEvent env e w
      | KeyEvent e \<Rightarrow> (if k_type e = KeyPress then HandleKeyPress env e w else w)
      | CrossingEvent e \<Rightarrow>
          (if x_type e = EnterNotify then HandleEnterNotify env e w
           else HandleLeaveNotify env e w)
      | MotionNotify e \<Rightarrow>
          (case drain_motion e (queue w) of
             (e', q) \<Rightarrow> HandleMotionNotify env e' (w\<lparr>queue := q\<rparr>))
      | _ \<Rightarrow> w)"

text \<open>
  \<^verbatim>\<open>DiscardMotionEvents\<close>: every queued motion event is taken off the queue and sets the
  mouse position; the caller's event is replaced by each one that is for the window \<open>win\<close>.
\<close>

function DiscardMotionEvents :: "XEvent \<Rightarrow> Window \<Rightarrow> World \<Rightarrow> XEvent \<times> World" where
  "DiscardMotionEvents event win w =
     (case JXCheckTypedEvent_MotionNotify (queue w) of
        None \<Rightarrow> (event, w)
      | Some (temp, q) \<Rightarrow>
          DiscardMotionEvents (if m_window temp = win then MotionNotify temp else event) win
            (SetMousePosition (m_x_root temp) (m_y_root temp) (w\<lparr>queue := q\<rparr>)))"
  by pat_completeness auto
termination
  by (relation "measure (\<lambda>(event, win, w). length (queue w))")
     (auto dest: JXCheckTypedEvent_MotionNotify_length simp: SetMousePosition_def)

declare drain_motion.simps [simp del] DiscardMotionEvents.simps [simp del]

subsection \<open>\<^verbatim>\<open>WaitForEvent\<close>\<close>

text \<open>The \<^verbatim>\<open>switch\<close> of lines 88 to 148: the handler of the event and the value of \<^verbatim>\<open>handled\<close>.\<close>

definition dispatch_event :: "Env \<Rightarrow> XEvent \<Rightarrow> World \<Rightarrow> bool \<times> World" where
  "dispatch_event env event w =
     (case event of
        ConfigureRequest e \<Rightarrow> (True, HandleConfigureRequest env e w)
      | MapRequest e \<Rightarrow> (True, HandleMapRequest env e w)
      | PropertyNotify e \<Rightarrow> HandlePropertyNotify env e w
      | ClientMessage e \<Rightarrow> (True, HandleClientMessage env e w)
      | UnmapNotify e \<Rightarrow> (True, HandleUnmapNotify env e w)
      | Expose e \<Rightarrow> HandleExpose env e w
      | ColormapNotify e \<Rightarrow> (True, HandleColormapChange env e w)
      | DestroyNotify e \<Rightarrow> HandleDestroyNotify env e w
      | SelectionClear e \<Rightarrow> HandleSelectionClear env e w
      | ResizeRequest e \<Rightarrow>
          (HandleDockResizeRequest env w e,
           call ''HandleDockResizeRequest'' [int (rr_window e)] w)
      | MotionNotify e \<Rightarrow> (False, SetMousePosition (m_x_root e) (m_y_root e) w)
      | ConfigureNotify \<Rightarrow> (True, w)
      | CreateNotify \<Rightarrow> (True, w)
      | MapNotify \<Rightarrow> (True, w)
      | ReparentNotify \<Rightarrow> (True, w)
      | GraphicsExpose \<Rightarrow> (True, w)
      | NoExpose \<Rightarrow> (True, w)
      | OtherEvent t win \<Rightarrow>
          if haveShape env \<and> t = shapeEvent env then (True, HandleShapeEvent env win w)
          else (False, w)
      | _ \<Rightarrow> (False, w))"

text \<open>One of the four \<^verbatim>\<open>if(!handled) handled = Process...Event(event);\<close> of lines 150 to 161.\<close>

definition offer :: "(World \<Rightarrow> XEvent \<Rightarrow> bool) \<Rightarrow> string \<Rightarrow> XEvent \<Rightarrow> bool \<times> World \<Rightarrow> bool \<times> World" where
  "offer process name event hw =
     (case hw of (handled, w) \<Rightarrow>
        if \<not> handled then (process w event, call name [] w) else (handled, w))"

text \<open>The body of the \<^verbatim>\<open>do\<close> loop after \<^verbatim>\<open>JXNextEvent\<close>: the final value of \<^verbatim>\<open>handled\<close> and
  the state.\<close>

definition handle_event :: "Env \<Rightarrow> XEvent \<Rightarrow> World \<Rightarrow> bool \<times> World" where
  "handle_event env event w =
     offer (ProcessPopupEvent env) ''ProcessPopupEvent'' event
       (offer (ProcessSwallowEvent env) ''ProcessSwallowEvent'' event
          (offer (ProcessDialogEvent env) ''ProcessDialogEvent'' event
             (offer (ProcessTrayEvent env) ''ProcessTrayEvent'' event
                (dispatch_event env event w))))"

text \<open>
  \<^verbatim>\<open>WaitForEvent\<close>. The loop takes the next event off the queue; with no event queued it
  waits (calling \<^verbatim>\<open>Signal\<close> every second) and, in a model whose queue holds all the events
  there will ever be, does not return: the result is \<open>None\<close>. The first argument bounds the
  number of rounds; \<open>None\<close> is also the result when the bound is reached.
  \<^verbatim>\<open>Signal\<close> reads the clock and notifies the tray, the taskbar, the clock and the popups, at
  most once in 50 ms; the model records that it was called.
\<close>

fun WaitForEvent :: "Env \<Rightarrow> nat \<Rightarrow> World \<Rightarrow> (XEvent \<times> World) option" where
  "WaitForEvent env 0 w = None"
| "WaitForEvent env (Suc n) w =
     (case queue w of
        [] \<Rightarrow> None
      | event # q \<Rightarrow>
          (case handle_event env event (call ''Signal'' [] (w\<lparr>queue := q\<rparr>)) of
             (handled, w') \<Rightarrow>
               if handled \<and> \<not> shouldExit w' then WaitForEvent env n w'
               else Some (event, w')))"


subsection \<open>Notions used in the statements\<close>

text \<open>
  What each of the three actions does to the record of the client, given which properties
  the request names.
\<close>

definition net_remove :: "bool \<Rightarrow> bool \<Rightarrow> bool \<Rightarrow> ClientNode \<Rightarrow> ClientNode" where
  "net_remove am as ash c =
     (let c1 = (if as then set_status STAT_STICKY False c else c);
          c2 = (if am \<and> STAT_MAXIMIZED \<in> c_status c1
                then set_status STAT_MAXIMIZED (STAT_MAXIMIZED \<notin> c_status c1) c1 else c1)
      in if ash then set_status STAT_SHADED False c2 else c2)"

definition net_add :: "bool \<Rightarrow> bool \<Rightarrow> bool \<Rightarrow> ClientNode \<Rightarrow> ClientNode" where
  "net_add am as ash c =
     (let c1 = (if as then set_status STAT_STICKY True c else c);
          c2 = (if am \<and> STAT_MAXIMIZED \<notin> c_status c1
                then set_status STAT_MAXIMIZED (STAT_MAXIMIZED \<notin> c_status c1) c1 else c1)
      in if ash then set_status STAT_SHADED True c2 else c2)"

definition net_toggle :: "bool \<Rightarrow> bool \<Rightarrow> bool \<Rightarrow> ClientNode \<Rightarrow> ClientNode" where
  "net_toggle am as ash c =
     (let c1 = (if as then set_status STAT_STICKY (STAT_STICKY \<notin> c_status c) c else c);
          c2 = (if am then set_status STAT_MAXIMIZED (STAT_MAXIMIZED \<notin> c_status c1) c1 else c1)
      in if ash then set_status STAT_SHADED (STAT_SHADED \<notin> c_status c2) c2 else c2)"

text \<open>The motion events of a queue, in order, and the queue without them.\<close>

fun motions :: "XEvent list \<Rightarrow> XMotionEvent list" where
  "motions [] = []"
| "motions (e # q) = (case e of MotionNotify m \<Rightarrow> m # motions q | _ \<Rightarrow> motions q)"

fun others :: "XEvent list \<Rightarrow> XEvent list" where
  "others [] = []"
| "others (e # q) = (case e of MotionNotify m \<Rightarrow> others q | _ \<Rightarrow> e # others q)"

text \<open>The event a caller of \<^verbatim>\<open>DiscardMotionEvents\<close> is left with: the last of the motion events
  \<open>ms\<close> that is for the window \<open>win\<close>, and its own event when there is none.\<close>

definition last_for :: "Window \<Rightarrow> XEvent \<Rightarrow> XMotionEvent list \<Rightarrow> XEvent" where
  "last_for win event ms =
     (case filter (\<lambda>m. m_window m = win) ms of
        [] \<Rightarrow> event
      | m # ms' \<Rightarrow> MotionNotify (last (m # ms')))"

subsection \<open>A sample configuration\<close>

text \<open>
  Concrete values at which the theorems below are instantiated: an atom table with distinct
  atoms, a decoration of 4 pixels with a title of 20, two desktops, a double click of at most
  400 ms within 2 pixels, and one mapped, sticky, maximized client whose content window 10
  lies at (10, 10) with size 200 by 150 inside the decoration window 11.
\<close>

definition sample_atoms :: "AtomName \<Rightarrow> Atom" where
  "sample_atoms a =
     (case a of
        ATOM_WIN_STATE \<Rightarrow> 101 | ATOM_WIN_LAYER \<Rightarrow> 102 | ATOM_WM_CHANGE_STATE \<Rightarrow> 103
      | ATOM_NET_ACTIVE_WINDOW \<Rightarrow> 104 | ATOM_NET_WM_DESKTOP \<Rightarrow> 105
      | ATOM_NET_CLOSE_WINDOW \<Rightarrow> 106 | ATOM_NET_MOVERESIZE_WINDOW \<Rightarrow> 107
      | ATOM_NET_WM_STATE \<Rightarrow> 108 | ATOM_JWM_RESTART \<Rightarrow> 109 | ATOM_JWM_EXIT \<Rightarrow> 110
      | ATOM_NET_CURRENT_DESKTOP \<Rightarrow> 111 | ATOM_NET_SYSTEM_TRAY_OPCODE \<Rightarrow> 112
      | ATOM_NET_WM_STATE_STICKY \<Rightarrow> 113 | ATOM_NET_WM_STATE_MAXIMIZED_VERT \<Rightarrow> 114
      | ATOM_NET_WM_STATE_MAXIMIZED_HORZ \<Rightarrow> 115 | ATOM_NET_WM_STATE_SHADED \<Rightarrow> 116
      | ATOM_WM_COLORMAP_WINDOWS \<Rightarrow> 117 | ATOM_NET_WM_ICON \<Rightarrow> 118
      | ATOM_NET_WM_NAME \<Rightarrow> 119 | ATOM_NET_WM_STRUT_PARTIAL \<Rightarrow> 120
      | ATOM_NET_WM_STRUT \<Rightarrow> 121)"

definition sample_env :: Env where
  "sample_env =
     \<lparr>atoms = sample_atoms, rootWindow = 1, rootWidth = 1024, rootHeight = 768,
      borderWidth = 4, titleHeight = 20, desktopCount = 2,
      doubleClickSpeed = 400, doubleClickDelta = 2, focusModel = FOCUS_SLOPPY,
      haveShape = False, shapeEvent = 64, WIN_STATE_STICKY = 1, WIN_STATE_HIDDEN = 16,
      GetBorderSize = (\<lambda>c. (24, 4, 4, 4)),
      GetGravityDelta = (\<lambda>c. if c_gravity c = 1 then (0, 0) else (4, 24)),
      ConstrainSize = (\<lambda>c. c),
      GetBorderActionType = (\<lambda>c mx my. if my < 24 then (BA_MOVE, 0) else (BA_RESIZE, 1)),
      GetFrameCursor = (\<lambda>a. 0),
      GetKey = (\<lambda>k. (KEY_NONE, 0)),
      GetActiveClient = (\<lambda>w. None),
      MoveClient_result = (\<lambda>w np mx my. False),
      ShowRootMenu_result = (\<lambda>w button mx my. True),
      CheckSwallowMap = (\<lambda>w e. False),
      AddClientWindow = (\<lambda>w win. None),
      HandleDockDestroy = (\<lambda>w win. False),
      HandleDockSelectionClear = (\<lambda>w e. False),
      HandleDockResizeRequest = (\<lambda>w e. False),
      ProcessTrayEvent = (\<lambda>w e. False),
      ProcessDialogEvent = (\<lambda>w e. False),
      ProcessSwallowEvent = (\<lambda>w e. False),
      ProcessPopupEvent = (\<lambda>w e. False)\<rparr>"

definition sample_client :: ClientNode where
  "sample_client =
     \<lparr>c_window = 10, c_parent = 11, c_x = 10, c_y = 10, c_width = 200, c_height = 150,
      c_gravity = 1, c_status = {STAT_MAPPED, STAT_STICKY, STAT_MAXIMIZED},
      c_border = {BORDER_OUTLINE, BORDER_TITLE}, c_desktop = 0,
      c_borderAction = (BA_NONE, 0), c_cmap = 0, c_controller = True\<rparr>"

definition sample_world :: World where
  "sample_world =
     \<lparr>clients = [sample_client], queue = [], trace = [], shouldExit = False,
      mouse = (0, 0), doubleClickActive = False, lastClickTime = 0, lastX = 0, lastY = 0\<rparr>"

text \<open>A state request: action \<open>a\<close> on the properties \<open>p1\<close> and \<open>p2\<close> of window 10.\<close>

definition state_request :: "int \<Rightarrow> Atom \<Rightarrow> Atom \<Rightarrow> XClientMessageEvent" where
  "state_request a p1 p2 =
     \<lparr>cm_window = 10, cm_message_type = 108, l0 = a, l1 = int p1, l2 = int p2, l3 = 0, l4 = 0\<rparr>"

text \<open>A configure request for window 10 that carries a width of 300 and nothing else.\<close>

definition width_request :: XConfigureRequestEvent where
  "width_request =
     \<lparr>cr_window = 10, cr_x = 0, cr_y = 0, cr_width = 300, cr_height = 0, cr_border_width = 0,
      cr_above = 0, cr_detail = 0, cr_value_mask = CWWidth\<rparr>"

text \<open>A press of button 1 on window \<open>win\<close> at time \<open>t\<close> and position (\<open>px\<close>, \<open>py\<close>);
  a second client, and a world with both clients.\<close>

definition press :: "Window \<Rightarrow> Time \<Rightarrow> int \<Rightarrow> int \<Rightarrow> XButtonEvent" where
  "press win t px py =
     \<lparr>b_type = ButtonPress, b_window = win, b_time = t, b_x = px, b_y = py,
      b_state = 0, b_button = Button1\<rparr>"

definition second_client :: ClientNode where
  "second_client =
     \<lparr>c_window = 20, c_parent = 21, c_x = 300, c_y = 10, c_width = 100, c_height = 100,
      c_gravity = 9, c_status = {STAT_MAPPED},
      c_border = {BORDER_OUTLINE, BORDER_TITLE}, c_desktop = 0,
      c_borderAction = (BA_NONE, 0), c_cmap = 0, c_controller = False\<rparr>"

definition two_clients :: World where
  "two_clients = sample_world\<lparr>clients := [sample_client, second_client]\<rparr>"

text \<open>A motion event on window \<open>win\<close> at (\<open>px\<close>, \<open>py\<close>); a queue of four motion events for
  window 11, and a queue with motion events for the windows 11 and 21.\<close>

definition motion :: "Window \<Rightarrow> int \<Rightarrow> int \<Rightarrow> XMotionEvent" where
  "motion win px py =
     \<lparr>m_window = win, m_x = px, m_y = py, m_x_root = px, m_y_root = py, m_is_hint = False\<rparr>"

definition five_motions :: World where
  "five_motions =
     sample_world\<lparr>queue := [MotionNotify (motion 11 2 30), MotionNotify (motion 11 3 30),
                             MotionNotify (motion 11 4 30), MotionNotify (motion 11 5 10)]\<rparr>"

definition mixed_motions :: World where
  "mixed_motions =
     two_clients\<lparr>queue := [MotionNotify (motion 11 2 10), MotionNotify (motion 21 9 30)]\<rparr>"

text \<open>A move-resize request (message type 107 of the sample atoms) for window \<open>win\<close>, and the
  sample environment with wider insets.\<close>

definition moveresize_request :: "Window \<Rightarrow> int \<Rightarrow> int \<Rightarrow> int \<Rightarrow> int \<Rightarrow> int \<Rightarrow> XClientMessageEvent" where
  "moveresize_request win gravity_and_flags px py pw ph =
     \<lparr>cm_window = win, cm_message_type = 107, l0 = gravity_and_flags,
      l1 = px, l2 = py, l3 = pw, l4 = ph\<rparr>"

definition wide_border_env :: Env where
  "wide_border_env = sample_env\<lparr>GetBorderSize := (\<lambda>c. (30, 10, 10, 10))\<rparr>"


text \<open>The sample world with the events \<open>q\<close> queued, and what the trace shows when the four
  consumers of the fallback chain were offered an event.\<close>

definition pending :: "XEvent list \<Rightarrow> World" where
  "pending q = sample_world\<lparr>queue := q\<rparr>"

definition declined :: "Effect list" where
  "declined = [Collab ''ProcessTrayEvent'' [], Collab ''ProcessDialogEvent'' [],
               Collab ''ProcessSwallowEvent'' [], Collab ''ProcessPopupEvent'' []]"

text \<open>The sample world with a destroy notification for window 10 queued; a desktop message
  (type 105 of the sample atoms) for window 10; an event of button \<open>button\<close> on the decoration
  window 11.\<close>

definition destroy_queued :: World where
  "destroy_queued =
     sample_world\<lparr>queue := [DestroyNotify \<lparr>d_event = 10, d_window = 10\<rparr>, ConfigureNotify]\<rparr>"

definition desktop_request :: "int \<Rightarrow> XClientMessageEvent" where
  "desktop_request d =
     \<lparr>cm_window = 10, cm_message_type = 105, l0 = d, l1 = 0, l2 = 0, l3 = 0, l4 = 0\<rparr>"

definition wheel :: "ButtonEventType \<Rightarrow> nat \<Rightarrow> XButtonEvent" where
  "wheel t button =
     \<lparr>b_type = t, b_window = 11, b_time = 1000, b_x = 50, b_y = 10, b_state = 0,
      b_button = button\<rparr>"

section \<open>Properties\<close>

subsection \<open>What the operations leave alone\<close>

lemma clients_emit [simp]: "clients (emit e w) = clients w"
  by (simp add: emit_def)

lemma clients_call [simp]: "clients (call name args w) = clients w"
  by (simp add: call_def)

lemma clients_call_np [simp]: "clients (call_np name np args w) = clients w"
  by (simp add: call_np_def)

lemma clients_update_client:
  "clients (update_client np f w) = (clients w)[np := f (client w np)]"
  by (simp add: update_client_def client_def)

lemma clients_SetClientSticky:
  "clients (SetClientSticky np b w) = (clients w)[np := set_status STAT_STICKY b (client w np)]"
  by (simp add: SetClientSticky_def clients_update_client client_def)

lemma clients_MaximizeClient:
  "clients (MaximizeClient np w) =
     (clients w)[np := set_status STAT_MAXIMIZED (STAT_MAXIMIZED \<notin> c_status (client w np))
                         (client w np)]"
  by (simp add: MaximizeClient_def clients_update_client client_def)

lemma clients_ShadeClient:
  "clients (ShadeClient np w) = (clients w)[np := set_status STAT_SHADED True (client w np)]"
  by (simp add: ShadeClient_def clients_update_client client_def)

lemma clients_UnshadeClient:
  "clients (UnshadeClient np w) = (clients w)[np := set_status STAT_SHADED False (client w np)]"
  by (simp add: UnshadeClient_def clients_update_client client_def)

lemmas clients_ops =
  clients_SetClientSticky clients_MaximizeClient clients_ShadeClient clients_UnshadeClient

lemma c_status_set_status [simp]:
  "c_status (set_status f b c) = (if b then insert f (c_status c) else c_status c - {f})"
  by (simp add: set_status_def)

subsection \<open>State requests of the extended hints (\<^verbatim>\<open>HandleNetWMState\<close>)\<close>

lemma clients_remove:
  assumes sc: "scan_state_atom env (l2 ev) (scan_state_atom env (l1 ev) (False, False, False))
                 = (am, as, ash)"
    and l: "l0 ev = 0"
  shows "clients (HandleNetWMState env ev np w)
           = (clients w)[np := net_remove am as ash (client w np)]"
proof (cases "np < length (clients w)")
  case True
  show ?thesis
    unfolding HandleNetWMState_def sc using l True
    by (simp add: doif_def Let_def net_remove_def clients_ops client_def)
next
  case False
  show ?thesis
    unfolding HandleNetWMState_def sc using l False
    by (simp add: doif_def Let_def clients_ops client_def list_update_beyond)
qed

lemma clients_add:
  assumes sc: "scan_state_atom env (l2 ev) (scan_state_atom env (l1 ev) (False, False, False))
                 = (am, as, ash)"
    and l: "l0 ev = 1"
  shows "clients (HandleNetWMState env ev np w)
           = (clients w)[np := net_add am as ash (client w np)]"
proof (cases "np < length (clients w)")
  case True
  show ?thesis
    unfolding HandleNetWMState_def sc using l True
    by (simp add: doif_def Let_def net_add_def clients_ops client_def)
next
  case False
  show ?thesis
    unfolding HandleNetWMState_def sc using l False
    by (simp add: doif_def Let_def clients_ops client_def list_update_beyond)
qed

lemma clients_toggle:
  assumes sc: "scan_state_atom env (l2 ev) (scan_state_atom env (l1 ev) (False, False, False))
                 = (am, as, ash)"
    and l: "l0 ev = 2"
  shows "clients (HandleNetWMState env ev np w)
           = (clients w)[np := net_toggle am as ash (client w np)]"
proof (cases "np < length (clients w)")
  case True
  show ?thesis
    unfolding HandleNetWMState_def sc using l True
    by (simp add: doif_def Let_def net_toggle_def clients_ops client_def)
next
  case False
  show ?thesis
    unfolding HandleNetWMState_def sc using l False
    by (simp add: doif_def Let_def clients_ops client_def list_update_beyond)
qed

lemma net_remove_idem: "net_remove am as ash (net_remove am as ash c) = net_remove am as ash c"
  by (cases c) (simp add: net_remove_def set_status_def Let_def)

lemma net_add_idem: "net_add am as ash (net_add am as ash c) = net_add am as ash c"
  by (cases c) (simp add: net_add_def set_status_def Let_def insert_absorb)

lemma net_toggle_twice: "net_toggle am as ash (net_toggle am as ash c) = c"
  by (cases c) (auto simp add: net_toggle_def set_status_def Let_def)

lemma applied_twice:
  assumes "\<And>w. clients (h w) = (clients w)[np := g (client w np)]"
  shows "clients (h (h w)) = (clients w)[np := g (g (client w np))]"
proof (cases "np < length (clients w)")
  case True
  then show ?thesis by (simp add: assms client_def)
next
  case False
  then show ?thesis by (simp add: assms client_def list_update_beyond)
qed

text \<open>
  C1. A state request with action 0 (remove) or 1 (add) is idempotent: handling it a second
  time leaves every client record as the first handling left it. Handling a request with
  action 2 (toggle) twice gives every client record back as it was. This holds for every
  client, whichever of the properties sticky, maximized (vertically or horizontally) and
  shaded the request names.
\<close>

theorem HandleNetWMState_idempotent_and_toggle_involutive:
  "(l0 ev = 0 \<or> l0 ev = 1 \<longrightarrow>
      clients (HandleNetWMState env ev np (HandleNetWMState env ev np w))
        = clients (HandleNetWMState env ev np w))
   \<and> (l0 ev = 2 \<longrightarrow>
      clients (HandleNetWMState env ev np (HandleNetWMState env ev np w)) = clients w)"
proof -
  obtain am as ash where
    sc: "scan_state_atom env (l2 ev) (scan_state_atom env (l1 ev) (False, False, False))
           = (am, as, ash)"
    by (metis prod_cases3)
  let ?H = "HandleNetWMState env ev np"
  have r: "clients (?H (?H w)) = clients (?H w)" if "l0 ev = 0"
    using applied_twice [of ?H np "net_remove am as ash" w] clients_remove [OF sc that]
    by (simp add: net_remove_idem)
  have a: "clients (?H (?H w)) = clients (?H w)" if "l0 ev = 1"
    using applied_twice [of ?H np "net_add am as ash" w] clients_add [OF sc that]
    by (simp add: net_add_idem)
  have t: "clients (?H (?H w)) = clients w" if "l0 ev = 2"
    using applied_twice [of ?H np "net_toggle am as ash" w] clients_toggle [OF sc that]
    by (simp add: net_toggle_twice client_def)
  from r a t show ?thesis by blast
qed


lemmas sample_defs =
  sample_env_def sample_client_def sample_world_def sample_atoms_def

lemmas state_defs =
  client_def update_client_def emit_def call_def call_np_def run_controller_def doif_def
  set_status_def SetClientSticky_def MaximizeClient_def ShadeClient_def UnshadeClient_def

lemma sample_remove:
  "c_status (client (HandleNetWMState sample_env (state_request 0 113 114) 0 sample_world) 0)
     = {STAT_MAPPED}"
  by (auto simp add: sample_defs state_request_def HandleNetWMState_def scan_state_atom_def
      Let_def state_defs)

lemma sample_toggle:
  "c_status (client (HandleNetWMState sample_env (state_request 2 113 116) 0 sample_world) 0)
     = {STAT_MAPPED, STAT_MAXIMIZED, STAT_SHADED}"
  by (auto simp add: sample_defs state_request_def HandleNetWMState_def scan_state_atom_def
      Let_def state_defs)

theorem HandleNetWMState_idempotent_and_toggle_involutive_witness:
  "clients (HandleNetWMState sample_env (state_request 0 113 114) 0
              (HandleNetWMState sample_env (state_request 0 113 114) 0 sample_world))
     = clients (HandleNetWMState sample_env (state_request 0 113 114) 0 sample_world)
   \<and> c_status (client (HandleNetWMState sample_env (state_request 0 113 114) 0 sample_world) 0)
       = {STAT_MAPPED}
   \<and> clients (HandleNetWMState sample_env (state_request 2 113 116) 0
                (HandleNetWMState sample_env (state_request 2 113 116) 0 sample_world))
       = clients sample_world
   \<and> c_status (client (HandleNetWMState sample_env (state_request 2 113 116) 0 sample_world) 0)
       = {STAT_MAPPED, STAT_MAXIMIZED, STAT_SHADED}"
  using HandleNetWMState_idempotent_and_toggle_involutive
          [of "state_request 0 113 114" sample_env 0 sample_world]
        HandleNetWMState_idempotent_and_toggle_involutive
          [of "state_request 2 113 116" sample_env 0 sample_world]
        sample_remove sample_toggle
  by (simp add: state_request_def)

subsection \<open>Configure requests (\<^verbatim>\<open>HandleConfigureRequest\<close>)\<close>

lemma find_index_Some:
  "find_index P xs = Some i \<Longrightarrow> i < length xs \<and> P (xs ! i)"
  by (induction xs arbitrary: i) (auto split: if_splits)

lemma FindClientByWindow_lt:
  "FindClientByWindow w win = Some np \<Longrightarrow> np < length (clients w)"
  by (auto simp: FindClientByWindow_def FindClientByParent_def dest: find_index_Some split: option.splits)

lemma FindClientByParent_Some:
  "FindClientByParent w p = Some np \<Longrightarrow> np < length (clients w) \<and> c_parent (client w np) = p"
  by (auto simp: FindClientByParent_def client_def dest: find_index_Some)

lemma merge_request_eq:
  "merge_request ev c =
     (c\<lparr>c_width := (if cr_value_mask ev AND CWWidth \<noteq> 0 then cr_width ev else c_width c),
        c_height := (if cr_value_mask ev AND CWHeight \<noteq> 0 then cr_height ev else c_height c),
        c_x := (if cr_value_mask ev AND CWX \<noteq> 0 then cr_x ev else c_x c),
        c_y := (if cr_value_mask ev AND CWY \<noteq> 0 then cr_y ev else c_y c)\<rparr>,
      (cr_value_mask ev AND CWWidth \<noteq> 0 \<and> cr_width ev \<noteq> c_width c)
      \<or> (cr_value_mask ev AND CWHeight \<noteq> 0 \<and> cr_height ev \<noteq> c_height c)
      \<or> (cr_value_mask ev AND CWX \<noteq> 0 \<and> cr_x ev \<noteq> c_x c)
      \<or> (cr_value_mask ev AND CWY \<noteq> 0 \<and> cr_y ev \<noteq> c_y c))"
  by (cases c) (simp add: merge_request_def Let_def)


lemma trace_emit [simp]: "trace (emit e w) = trace w @ [e]"
  by (simp add: emit_def)

lemma clients_run_controller [simp]: "clients (run_controller np b w) = clients w"
  by (simp add: run_controller_def)

lemma client_run_controller [simp]: "client (run_controller np b w) k = client w k"
  by (simp add: client_def)

lemma trace_run_controller:
  "trace (run_controller np b w)
     = trace w @ (if c_controller (client w np) then [Controller (c_window (client w np)) b] else [])"
  by (simp add: run_controller_def)

lemma trace_update_client [simp]: "trace (update_client np f w) = trace w"
  by (simp add: update_client_def)


lemma geometry_update_same:
  "(c\<lparr>c_width := a, c_height := b, c_x := p, c_y := q\<rparr> = c)
     = (a = c_width c \<and> b = c_height c \<and> p = c_x c \<and> q = c_y c)"
  by (cases c) auto

lemma merge_request_changed:
  "snd (merge_request ev c) \<longleftrightarrow> fst (merge_request ev c) \<noteq> c"
  unfolding merge_request_eq fst_conv snd_conv geometry_update_same
  by auto

lemma HandleConfigureRequest_unchanged:
  assumes found: "FindClientByWindow w (cr_window ev) = Some np"
    and own: "c_window (client w np) = cr_window ev"
    and same: "fst (merge_request ev (client w np)) = client w np"
  shows "HandleConfigureRequest env ev w = run_controller np False w"
proof -
  have "\<not> snd (merge_request ev (client w np))"
    using same by (simp add: merge_request_changed)
  then show ?thesis using found own
    by (simp add: HandleConfigureRequest_def Let_def split_beta)
qed

lemma HandleConfigureRequest_changed:
  assumes found: "FindClientByWindow w (cr_window ev) = Some np"
    and own: "c_window (client w np) = cr_window ev"
    and m: "fst (merge_request ev (client w np)) = m"
    and diff: "m \<noteq> client w np"
    and b: "GetBorderSize env m = (north, south, east, west)"
    and c': "ConstrainSize env m = c'"
  shows "clients (HandleConfigureRequest env ev w) = (clients w)[np := c']"
    and "trace (HandleConfigureRequest env ev w) =
           trace (run_controller np False w) @
             [Display (JXConfigureWindow (c_parent c') (cr_value_mask ev)
                \<lparr>wc_x = c_x c', wc_y = c_y c',
                 wc_width = c_width c' + east + west,
                 wc_height = c_height c' + north + south,
                 wc_border_width = 0, wc_sibling = c_parent m, wc_stack_mode = Above\<rparr>),
              Display (JXConfigureWindow (c_window c') (cr_value_mask ev)
                \<lparr>wc_x = west, wc_y = north,
                 wc_width = c_width c', wc_height = c_height c',
                 wc_border_width = 0, wc_sibling = c_parent m, wc_stack_mode = Above\<rparr>)]"
proof -
  have ch: "snd (merge_request ev (client w np))"
    using m diff by (simp add: merge_request_changed)
  show "clients (HandleConfigureRequest env ev w) = (clients w)[np := c']"
    using found own ch m b c'
    by (simp add: HandleConfigureRequest_def Let_def split_beta clients_update_client)
  show "trace (HandleConfigureRequest env ev w) =
           trace (run_controller np False w) @
             [Display (JXConfigureWindow (c_parent c') (cr_value_mask ev)
                \<lparr>wc_x = c_x c', wc_y = c_y c',
                 wc_width = c_width c' + east + west,
                 wc_height = c_height c' + north + south,
                 wc_border_width = 0, wc_sibling = c_parent m, wc_stack_mode = Above\<rparr>),
              Display (JXConfigureWindow (c_window c') (cr_value_mask ev)
                \<lparr>wc_x = west, wc_y = north,
                 wc_width = c_width c', wc_height = c_height c',
                 wc_border_width = 0, wc_sibling = c_parent m, wc_stack_mode = Above\<rparr>)]"
    using found own ch m b c'
    by (simp add: HandleConfigureRequest_def Let_def split_beta
        decoration_changes_def content_changes_def)
qed


text \<open>
  C2. A configure request for a client's own window writes into the record exactly the
  fields that the value mask flags (a flagged value equal to the current one changes
  nothing). When the record is unchanged the handler issues no display call: it has at most
  invoked the controller hook. When the record changed, the size constraints are applied
  and exactly two requests go to the display, in this order: one for the decoration window,
  sized to the content plus the insets, and one for the content window at the inset offset
  (west, north).
\<close>

theorem HandleConfigureRequest_merge:
  assumes found: "FindClientByWindow w (cr_window ev) = Some np"
    and own: "c_window (client w np) = cr_window ev"
  shows
    "let c = client w np;
         m = c\<lparr>c_width := (if cr_value_mask ev AND CWWidth \<noteq> 0 then cr_width ev else c_width c),
               c_height := (if cr_value_mask ev AND CWHeight \<noteq> 0 then cr_height ev else c_height c),
               c_x := (if cr_value_mask ev AND CWX \<noteq> 0 then cr_x ev else c_x c),
               c_y := (if cr_value_mask ev AND CWY \<noteq> 0 then cr_y ev else c_y c)\<rparr>;
         hook = (if c_controller c then [Controller (c_window c) False] else []);
         w' = HandleConfigureRequest env ev w
     in if m = c then clients w' = clients w \<and> trace w' = trace w @ hook
        else
          (case GetBorderSize env m of (north, south, east, west) \<Rightarrow>
             let c' = ConstrainSize env m in
               clients w' = (clients w)[np := c']
               \<and> trace w' = trace w @ hook @
                   [Display (JXConfigureWindow (c_parent c') (cr_value_mask ev)
                      \<lparr>wc_x = c_x c', wc_y = c_y c',
                       wc_width = c_width c' + east + west,
                       wc_height = c_height c' + north + south,
                       wc_border_width = 0, wc_sibling = c_parent m, wc_stack_mode = Above\<rparr>),
                    Display (JXConfigureWindow (c_window c') (cr_value_mask ev)
                      \<lparr>wc_x = west, wc_y = north,
                       wc_width = c_width c', wc_height = c_height c',
                       wc_border_width = 0, wc_sibling = c_parent m, wc_stack_mode = Above\<rparr>)])"
proof -
  define m where "m = fst (merge_request ev (client w np))"
  have m: "client w np\<lparr>c_width := (if cr_value_mask ev AND CWWidth \<noteq> 0 then cr_width ev else c_width (client w np)),
               c_height := (if cr_value_mask ev AND CWHeight \<noteq> 0 then cr_height ev else c_height (client w np)),
               c_x := (if cr_value_mask ev AND CWX \<noteq> 0 then cr_x ev else c_x (client w np)),
               c_y := (if cr_value_mask ev AND CWY \<noteq> 0 then cr_y ev else c_y (client w np))\<rparr> = m"
    unfolding m_def merge_request_eq fst_conv ..
  obtain north south east west where b: "GetBorderSize env m = (north, south, east, west)"
    by (cases "GetBorderSize env m") auto
  show ?thesis
  proof (cases "m = client w np")
    case True
    have "HandleConfigureRequest env ev w = run_controller np False w"
      using found own True by (intro HandleConfigureRequest_unchanged) (simp_all add: m_def)
    then show ?thesis
      unfolding Let_def m using True by (simp add: trace_run_controller)
  next
    case False
    show ?thesis
      unfolding Let_def m
      using False b HandleConfigureRequest_changed [OF found own m_def [symmetric] False b refl]
      by (simp add: trace_run_controller)
  qed
qed

lemma sample_found: "FindClientByWindow sample_world 10 = Some 0"
  by (simp add: FindClientByWindow_def sample_defs)

theorem HandleConfigureRequest_merge_witness:
  "clients (HandleConfigureRequest sample_env width_request sample_world)
     = [sample_client\<lparr>c_width := 300\<rparr>]
   \<and> trace (HandleConfigureRequest sample_env width_request sample_world)
     = [Controller 10 False,
        Display (JXConfigureWindow 11 CWWidth
          \<lparr>wc_x = 10, wc_y = 10, wc_width = 308, wc_height = 178,
           wc_border_width = 0, wc_sibling = 11, wc_stack_mode = Above\<rparr>),
        Display (JXConfigureWindow 10 CWWidth
          \<lparr>wc_x = 4, wc_y = 24, wc_width = 300, wc_height = 150,
           wc_border_width = 0, wc_sibling = 11, wc_stack_mode = Above\<rparr>)]
   \<and> clients (HandleConfigureRequest sample_env (width_request\<lparr>cr_width := 200\<rparr>) sample_world)
     = clients sample_world
   \<and> trace (HandleConfigureRequest sample_env (width_request\<lparr>cr_width := 200\<rparr>) sample_world)
     = [Controller 10 False]"
  using HandleConfigureRequest_merge [of sample_world width_request 0 sample_env]
        HandleConfigureRequest_merge [of sample_world "width_request\<lparr>cr_width := 200\<rparr>" 0 sample_env]
        sample_found
  by (simp add: width_request_def sample_defs client_def Let_def)

subsection \<open>Double clicks on the border (\<^verbatim>\<open>DispatchBorderButtonEvent\<close>)\<close>

lemma trace_call [simp]: "trace (call name args w) = trace w @ [Collab name args]"
  by (simp add: call_def)

lemma trace_call_np [simp]:
  "trace (call_np name np args w) = trace w @ [Collab name (int (c_window (client w np)) # args)]"
  by (simp add: call_np_def)

lemma trace_MaximizeClient [simp]:
  "trace (MaximizeClient np w) = trace w @ [Collab ''MaximizeClient'' [int (c_window (client w np))]]"
  by (simp add: MaximizeClient_def)

lemma tracker_call_np [simp]:
  "doubleClickActive (call_np name np args w) = doubleClickActive w"
  "lastClickTime (call_np name np args w) = lastClickTime w"
  "lastX (call_np name np args w) = lastX w"
  "lastY (call_np name np args w) = lastY w"
  by (simp_all add: call_np_def call_def emit_def)

lemma is_double_click_call_np [simp]:
  "is_double_click env e (call_np name np args w) = is_double_click env e w"
  by (simp add: is_double_click_def)

text \<open>A press on the move action: the three outcomes of lines 1049 to 1066.\<close>

lemma press_on_move:
  assumes "fst (GetBorderActionType env (client w np) (b_x e) (b_y e)) = BA_MOVE"
    and "b_type e = ButtonPress"
  shows "DispatchBorderButtonEvent env e np w =
     (if is_double_click env e w then (MaximizeClient np w)\<lparr>doubleClickActive := False\<rparr>
      else if MoveClient_result env w np (b_x e) (b_y e)
        then (call_np ''MoveClient'' np [b_x e, b_y e] w)\<lparr>doubleClickActive := False\<rparr>
      else (call_np ''MoveClient'' np [b_x e, b_y e] w)
             \<lparr>doubleClickActive := True, lastClickTime := b_time e,
              lastX := b_x e, lastY := b_y e\<rparr>)"
  using assms by (simp add: DispatchBorderButtonEvent_def Let_def MoveClient_def)

text \<open>A press that arms the tracker, then a press within the thresholds, on any two clients.\<close>

lemma armed_then_press:
  assumes move1: "fst (GetBorderActionType env (client w np1) (b_x e1) (b_y e1)) = BA_MOVE"
    and press1: "b_type e1 = ButtonPress"
    and first: "\<not> is_double_click env e1 w"
    and rejected: "\<not> MoveClient_result env w np1 (b_x e1) (b_y e1)"
    and move2: "fst (GetBorderActionType env
                  (client (DispatchBorderButtonEvent env e1 np1 w) np2) (b_x e2) (b_y e2)) = BA_MOVE"
    and press2: "b_type e2 = ButtonPress"
    and t1: "0 < c_abs (b_time e2 - b_time e1)"
    and t2: "c_abs (b_time e2 - b_time e1) \<le> doubleClickSpeed env"
    and px: "\<bar>b_x e2 - b_x e1\<bar> \<le> doubleClickDelta env"
    and py: "\<bar>b_y e2 - b_y e1\<bar> \<le> doubleClickDelta env"
  shows "DispatchBorderButtonEvent env e2 np2 (DispatchBorderButtonEvent env e1 np1 w)
           = (MaximizeClient np2 (call_np ''MoveClient'' np1 [b_x e1, b_y e1] w))
               \<lparr>doubleClickActive := False, lastClickTime := b_time e1,
                lastX := b_x e1, lastY := b_y e1\<rparr>"
proof -
  let ?w1 = "DispatchBorderButtonEvent env e1 np1 w"
  have w1: "?w1 = (call_np ''MoveClient'' np1 [b_x e1, b_y e1] w)
             \<lparr>doubleClickActive := True, lastClickTime := b_time e1,
              lastX := b_x e1, lastY := b_y e1\<rparr>"
    using press_on_move [OF move1 press1] first rejected by simp
  have dc: "is_double_click env e2 ?w1"
    unfolding w1 using t1 t2 px py by (simp add: is_double_click_def)
  have "DispatchBorderButtonEvent env e2 np2 ?w1 = (MaximizeClient np2 ?w1)\<lparr>doubleClickActive := False\<rparr>"
    using press_on_move [OF move2 press2] dc by simp
  then show ?thesis
    unfolding w1
    by (simp add: MaximizeClient_def update_client_def call_np_def call_def emit_def client_def)
qed


lemma clients_MaximizeClient_call:
  "clients (MaximizeClient np2 (call_np name np1 args w))
     = (clients w)[np2 := set_status STAT_MAXIMIZED (STAT_MAXIMIZED \<notin> c_status (client w np2))
                            (client w np2)]"
  by (simp add: clients_MaximizeClient client_def)








lemma set_status_fields [simp]:
  "c_window (set_status f b c) = c_window c"
  "c_parent (set_status f b c) = c_parent c"
  "c_x (set_status f b c) = c_x c"
  "c_y (set_status f b c) = c_y c"
  "c_width (set_status f b c) = c_width c"
  "c_height (set_status f b c) = c_height c"
  "c_border (set_status f b c) = c_border c"
  "c_desktop (set_status f b c) = c_desktop c"
  "c_controller (set_status f b c) = c_controller c"
  by (simp_all add: set_status_def)

lemmas dispatch_defs =
  DispatchBorderButtonEvent_def is_double_click_def MoveClient_def Let_def press_def







text \<open>
  C4 (as amended). The tracker of the double click is one for the whole program and does not
  record the window: a press on the move action of one client that arms it, followed within
  the thresholds (coordinates relative to each decoration window) by a press on the move
  action of another client, maximizes the second client and clears the tracker.
\<close>

theorem double_click_tracker_is_shared:
  assumes diff: "np1 \<noteq> np2"
    and move1: "fst (GetBorderActionType env (client w np1) (b_x e1) (b_y e1)) = BA_MOVE"
    and press1: "b_type e1 = ButtonPress"
    and first: "\<not> is_double_click env e1 w"
    and rejected: "\<not> MoveClient_result env w np1 (b_x e1) (b_y e1)"
    and move2: "fst (GetBorderActionType env
                  (client (DispatchBorderButtonEvent env e1 np1 w) np2) (b_x e2) (b_y e2)) = BA_MOVE"
    and press2: "b_type e2 = ButtonPress"
    and t1: "0 < c_abs (b_time e2 - b_time e1)"
    and t2: "c_abs (b_time e2 - b_time e1) \<le> doubleClickSpeed env"
    and px: "\<bar>b_x e2 - b_x e1\<bar> \<le> doubleClickDelta env"
    and py: "\<bar>b_y e2 - b_y e1\<bar> \<le> doubleClickDelta env"
  shows
    "trace (DispatchBorderButtonEvent env e2 np2 (DispatchBorderButtonEvent env e1 np1 w))
       = trace w @
          [Collab ''MoveClient'' [int (c_window (client w np1)), b_x e1, b_y e1],
           Collab ''MaximizeClient'' [int (c_window (client w np2))]]
     \<and> clients (DispatchBorderButtonEvent env e2 np2 (DispatchBorderButtonEvent env e1 np1 w))
       = (clients w)[np2 :=
             set_status STAT_MAXIMIZED (STAT_MAXIMIZED \<notin> c_status (client w np2)) (client w np2)]
     \<and> \<not> doubleClickActive
           (DispatchBorderButtonEvent env e2 np2 (DispatchBorderButtonEvent env e1 np1 w))"
  unfolding armed_then_press [OF move1 press1 first rejected move2 press2 t1 t2 px py]
  by (simp add: clients_MaximizeClient_call client_def)

lemmas button_defs =
  HandleButtonEvent_def FindClientByParent_def FindClientByWindow_def two_clients_def
  second_client_def

theorem double_click_tracker_is_shared_witness:
  "trace (DispatchBorderButtonEvent sample_env (press 21 1200 51 11) 1
            (DispatchBorderButtonEvent sample_env (press 11 1000 50 10) 0 two_clients))
     = [Collab ''MoveClient'' [10, 50, 10], Collab ''MaximizeClient'' [20]]
   \<and> clients (DispatchBorderButtonEvent sample_env (press 21 1200 51 11) 1
            (DispatchBorderButtonEvent sample_env (press 11 1000 50 10) 0 two_clients))
     = [sample_client, second_client\<lparr>c_status := {STAT_MAPPED, STAT_MAXIMIZED}\<rparr>]
   \<and> \<not> doubleClickActive (DispatchBorderButtonEvent sample_env (press 21 1200 51 11) 1
            (DispatchBorderButtonEvent sample_env (press 11 1000 50 10) 0 two_clients))"
proof -
  let ?e1 = "press 11 1000 50 10" and ?e2 = "press 21 1200 51 11"
  let ?w1 = "DispatchBorderButtonEvent sample_env ?e1 0 two_clients"
  have h0: "(0::nat) \<noteq> 1" by simp
  have h1: "fst (GetBorderActionType sample_env (client two_clients 0) (b_x ?e1) (b_y ?e1)) = BA_MOVE"
    by (simp add: sample_env_def press_def)
  have h2: "b_type ?e1 = ButtonPress" by (simp add: press_def)
  have h3: "\<not> is_double_click sample_env ?e1 two_clients"
    by (simp add: is_double_click_def sample_world_def two_clients_def)
  have h4: "\<not> MoveClient_result sample_env two_clients 0 (b_x ?e1) (b_y ?e1)"
    by (simp add: sample_env_def)
  have h5: "fst (GetBorderActionType sample_env (client ?w1 1) (b_x ?e2) (b_y ?e2)) = BA_MOVE"
    by (simp add: sample_env_def press_def)
  have h6: "b_type ?e2 = ButtonPress" by (simp add: press_def)
  have h7: "0 < c_abs (b_time ?e2 - b_time ?e1)" by (simp add: press_def c_abs_def)
  have h8: "c_abs (b_time ?e2 - b_time ?e1) \<le> doubleClickSpeed sample_env"
    by (simp add: press_def c_abs_def sample_env_def)
  have h9: "\<bar>b_x ?e2 - b_x ?e1\<bar> \<le> doubleClickDelta sample_env"
    by (simp add: press_def sample_env_def)
  have h10: "\<bar>b_y ?e2 - b_y ?e1\<bar> \<le> doubleClickDelta sample_env"
    by (simp add: press_def sample_env_def)
  show ?thesis
    using double_click_tracker_is_shared [OF h0 h1 h2 h3 h4 h5 h6 h7 h8 h9 h10]
    by (auto simp add: press_def client_def two_clients_def sample_defs second_client_def
        set_status_def)
qed

text \<open>
  The claim C4 as stated fails: a press on the title of window 11 at time 1000 and a press on
  the title of window 21 at time 1200, one pixel away in window coordinates, maximize the
  client of window 21.
\<close>

theorem cross_window_double_click_counterexample:
  "trace (HandleButtonEvent sample_env (press 21 1200 51 11)
            (HandleButtonEvent sample_env (press 11 1000 50 10) two_clients))
     = [Collab ''RaiseClient'' [10], Collab ''MoveClient'' [10, 50, 10], Collab ''UpdatePager'' [],
        Collab ''RaiseClient'' [20], Collab ''MaximizeClient'' [20], Collab ''UpdatePager'' []]
   \<and> STAT_MAXIMIZED \<notin> c_status (client two_clients 1)
   \<and> STAT_MAXIMIZED \<in> c_status (client (HandleButtonEvent sample_env (press 21 1200 51 11)
            (HandleButtonEvent sample_env (press 11 1000 50 10) two_clients)) 1)"
  by (simp add: button_defs dispatch_defs sample_defs state_defs c_abs_def)

subsection \<open>Motion events (\<^verbatim>\<open>ProcessEvent\<close>, \<^verbatim>\<open>DiscardMotionEvents\<close>)\<close>

lemma check_motion_None:
  "JXCheckTypedEvent_MotionNotify q = None \<Longrightarrow> motions q = [] \<and> others q = q"
  by (induction q) (auto split: XEvent.splits)

lemma check_motion_Some:
  "JXCheckTypedEvent_MotionNotify q = Some (m, q')
     \<Longrightarrow> motions q = m # motions q' \<and> others q = others q'"
  by (induction q arbitrary: q') (auto split: XEvent.splits)

lemma drain_motion_eq: "drain_motion e q = (last (e # motions q), others q)"
proof (induction e q rule: drain_motion.induct)
  case (1 event q)
  show ?case
  proof (cases "JXCheckTypedEvent_MotionNotify q")
    case None
    then show ?thesis
      by (subst drain_motion.simps) (simp add: check_motion_None)
  next
    case (Some a)
    obtain m q' where a: "a = (m, q')" by (cases a)
    from 1 [OF Some a [symmetric]] check_motion_Some [OF Some [unfolded a]] Some a
    show ?thesis by (subst drain_motion.simps) simp
  qed
qed

lemma motions_others [simp]: "motions (others q) = []"
  by (induction q) (auto split: XEvent.splits)

lemma last_for_Cons:
  "last_for win event (m # ms) = last_for win (if m_window m = win then MotionNotify m else event) ms"
  by (auto simp: last_for_def split: list.splits)

lemma others_id: "motions q = [] \<Longrightarrow> others q = q"
  by (induction q) (auto split: XEvent.splits)

lemma DiscardMotionEvents_eq:
  "DiscardMotionEvents event win w =
     (last_for win event (motions (queue w)),
      if motions (queue w) = [] then w
      else w\<lparr>queue := others (queue w),
             mouse := (m_x_root (last (motions (queue w))), m_y_root (last (motions (queue w))))\<rparr>)"
proof (induction event win w rule: DiscardMotionEvents.induct)
  case (1 event win w)
  show ?case
  proof (cases "JXCheckTypedEvent_MotionNotify (queue w)")
    case None
    then show ?thesis
      by (subst DiscardMotionEvents.simps) (simp add: check_motion_None last_for_def)
  next
    case (Some a)
    obtain m q' where a: "a = (m, q')" by (cases a)
    note cs = check_motion_Some [OF Some [unfolded a]]
    from 1 [OF Some a [symmetric]] cs Some a
    show ?thesis
      by (subst DiscardMotionEvents.simps)
         (simp add: last_for_Cons SetMousePosition_def others_id)
  qed
qed

text \<open>
  C5 (as amended). When the dispatcher reads a motion event, every queued motion event,
  whatever its window, is taken off the queue, and \<^verbatim>\<open>HandleMotionNotify\<close> is applied once, to
  the last of them (to the event read when none is queued); the other events stay queued in
  their order. So for five motion events for the same window, the one read and four queued,
  there is exactly one motion dispatch, with the coordinates of the last.
\<close>

theorem ProcessEvent_coalesces_motion:
  "ProcessEvent env (MotionNotify e) w
     = HandleMotionNotify env (last (e # motions (queue w))) (w\<lparr>queue := others (queue w)\<rparr>)
   \<and> motions (others (queue w)) = []"
  by (simp add: ProcessEvent_def drain_motion_eq)

lemmas motion_defs =
  HandleMotionNotify_def SetMousePosition_def FindClientByParent_def motion_def Let_def

theorem ProcessEvent_coalesces_motion_witness:
  "ProcessEvent sample_env (MotionNotify (motion 11 1 30)) five_motions
     = HandleMotionNotify sample_env (motion 11 5 10) sample_world
   \<and> trace (ProcessEvent sample_env (MotionNotify (motion 11 1 30)) five_motions)
     = [Display (JXDefineCursor 11 0)]
   \<and> mouse (ProcessEvent sample_env (MotionNotify (motion 11 1 30)) five_motions) = (5, 10)
   \<and> queue (ProcessEvent sample_env (MotionNotify (motion 11 1 30)) five_motions) = []"
proof -
  have q: "last (motion 11 1 30 # motions (queue five_motions)) = motion 11 5 10"
    "five_motions\<lparr>queue := others (queue five_motions)\<rparr> = sample_world"
    by (simp_all add: five_motions_def sample_world_def)
  have h: "trace (HandleMotionNotify sample_env (motion 11 5 10) sample_world)
             = [Display (JXDefineCursor 11 0)]"
    "mouse (HandleMotionNotify sample_env (motion 11 5 10) sample_world) = (5, 10)"
    "queue (HandleMotionNotify sample_env (motion 11 5 10) sample_world) = []"
    by (simp_all add: motion_defs sample_defs state_defs)
  show ?thesis
    using ProcessEvent_coalesces_motion [of sample_env "motion 11 1 30" five_motions] q h
    by simp
qed

text \<open>
  The claim C5 as stated fails: with a motion event for window 11 read, and one for window 11
  and then one for window 21 queued, the event dispatched is the one for window 21; the most
  recent event for window 11 is dropped, and the border action of its client is not updated
  (dispatching that event would have set it, and the cursor of window 11).
\<close>

theorem motion_of_other_window_counterexample:
  "ProcessEvent sample_env (MotionNotify (motion 11 1 10)) mixed_motions
     = HandleMotionNotify sample_env (motion 21 9 30) two_clients
   \<and> trace (ProcessEvent sample_env (MotionNotify (motion 11 1 10)) mixed_motions)
     = [Display (JXDefineCursor 21 0)]
   \<and> c_borderAction (client (ProcessEvent sample_env (MotionNotify (motion 11 1 10)) mixed_motions) 0)
     = (BA_NONE, 0)
   \<and> trace (HandleMotionNotify sample_env (motion 11 2 10) two_clients)
     = [Display (JXDefineCursor 11 0)]
   \<and> c_borderAction (client (HandleMotionNotify sample_env (motion 11 2 10) two_clients) 0)
     = (BA_MOVE, 0)"
proof -
  have p: "ProcessEvent sample_env (MotionNotify (motion 11 1 10)) mixed_motions
     = HandleMotionNotify sample_env (motion 21 9 30) two_clients"
    by (simp add: ProcessEvent_def drain_motion_eq mixed_motions_def two_clients_def sample_world_def)
  show ?thesis
    unfolding p
    by (simp add: motion_defs sample_defs state_defs two_clients_def second_client_def)
qed

subsection \<open>Move-resize requests of the extended hints (\<^verbatim>\<open>HandleNetMoveResize\<close>)\<close>

text \<open>A value in the range of an \<^verbatim>\<open>int\<close> is stored as it is, and a size that is not negative
  is passed as it is.\<close>

lemma c_int_id: "- 2147483648 \<le> v \<Longrightarrow> v < 2147483648 \<Longrightarrow> c_int v = v"
  by (simp add: c_int_def)

lemma c_unsigned_id: "0 \<le> v \<Longrightarrow> v < 4294967296 \<Longrightarrow> c_unsigned v = nat v"
  by (simp add: c_unsigned_def)

text \<open>
  What the handler does, for every request: a field whose flag bit is set is taken from the
  request, the others from the record; the delta that \<^verbatim>\<open>GetGravityDelta\<close> gives for the client
  is subtracted from both coordinates, whether they were given or not; the four values are
  stored as \<^verbatim>\<open>int\<close>; the decoration window is moved to the position less the insets and sized
  to the content plus the insets, the content window is placed at (west, north) inside it;
  the state is written and a configure notification is sent to the client.
\<close>

lemma HandleNetMoveResize_effect:
  "case GetBorderSize env (client w np) of (north, south, east, west) \<Rightarrow>
   case GetGravityDelta env (client w np) of (deltax, deltay) \<Rightarrow>
     let c = client w np;
         flags = drop_bit 8 (l0 ev);
         c' = c\<lparr>c_x := c_int ((if flags AND 1 \<noteq> 0 then l1 ev else c_x c) - deltax),
                c_y := c_int ((if flags AND 2 \<noteq> 0 then l2 ev else c_y c) - deltay),
                c_width := c_int (if flags AND 4 \<noteq> 0 then l3 ev else c_width c),
                c_height := c_int (if flags AND 8 \<noteq> 0 then l4 ev else c_height c)\<rparr>;
         w' = HandleNetMoveResize env ev np w
     in clients w' = (clients w)[np := c']
        \<and> trace w' = trace w @
             [Display (JXMoveResizeWindow (c_parent c)
                (c_int (c_x c' - west)) (c_int (c_y c' - north))
                (c_unsigned (c_width c' + east + west))
                (c_unsigned (c_height c' + north + south))),
              Display (JXMoveResizeWindow (c_window c) west north
                (c_unsigned (c_width c')) (c_unsigned (c_height c'))),
              Collab ''WriteState'' [int (c_window c)],
              Collab ''SendConfigureEvent'' [int (c_window c)]]"
proof (cases "np < length (clients w)")
  case True
  then show ?thesis
    by (simp add: HandleNetMoveResize_def Let_def split_beta clients_update_client client_def
        update_client_def)
next
  case False
  then show ?thesis
    by (simp add: HandleNetMoveResize_def Let_def split_beta clients_update_client client_def
        update_client_def list_update_beyond)
qed

text \<open>The gravity in the request has no effect on what the handler does: two requests that
  differ in nothing but the gravity byte are handled alike.\<close>

lemma HandleNetMoveResize_ignores_request_gravity:
  assumes "drop_bit 8 (l0 ev') = drop_bit 8 (l0 ev)"
    and "l1 ev' = l1 ev" and "l2 ev' = l2 ev" and "l3 ev' = l3 ev" and "l4 ev' = l4 ev"
  shows "HandleNetMoveResize env ev' np w = HandleNetMoveResize env ev np w"
  using assms by (simp add: HandleNetMoveResize_def Let_def split_beta)

lemma flags_769: "drop_bit 8 (769::int) = 3" "(769::int) AND 255 = 1"
  by (simp_all add: drop_bit_eq_div)

lemma flags_1024: "drop_bit 8 (1024::int) = 4" "(1024::int) AND 255 = 0"
  by (simp_all add: drop_bit_eq_div)

text \<open>
  C6. The handler at the inputs where it departs from the claim, in the sample environment,
  whose gravity delta is (0, 0) for a client of north-west gravity (1) and (4, 24) for any
  other, on the client of window 20, of gravity 9, at (300, 10) with content size 100 by 100.

  A request that gives only a width of 300 (flags 4, gravity 0): the claim leaves x and y,
  whose flag bits are unset, at 300 and 10; the handler stores 296 and -14.

  A request of north-west gravity for the position (50, 50) (flags 3, gravity 1): the claim
  puts the top left of the content window at (50, 50); the handler takes the delta of the
  client's own gravity and stores (46, 26), and the request is handled as the same request
  with gravity 0 is.

  On the client of window 10, whose own gravity is north-west, the same request puts the
  content at (50, 50), with the insets (24, 4, 4, 4) and with wider ones, and a configure
  notification is sent.
\<close>

theorem HandleNetMoveResize_at_failing_inputs:
  "clients two_clients = [sample_client, second_client]
   \<and> (c_x second_client, c_y second_client, c_gravity second_client) = (300, 10, 9)
   \<and> GetGravityDelta sample_env (second_client\<lparr>c_gravity := 1\<rparr>) = (0, 0)
   \<and> drop_bit 8 (l0 (moveresize_request 20 1024 0 0 300 0)) AND 3 = 0
   \<and> clients (HandleNetMoveResize sample_env (moveresize_request 20 1024 0 0 300 0) 1 two_clients)
       = [sample_client, second_client\<lparr>c_x := 296, c_y := - 14, c_width := 300\<rparr>]
   \<and> request_gravity (moveresize_request 20 769 50 50 0 0) second_client = 1
   \<and> clients (HandleNetMoveResize sample_env (moveresize_request 20 769 50 50 0 0) 1 two_clients)
       = [sample_client, second_client\<lparr>c_x := 46, c_y := 26\<rparr>]
   \<and> trace (HandleNetMoveResize sample_env (moveresize_request 20 769 50 50 0 0) 1 two_clients)
       = [Display (JXMoveResizeWindow 21 42 2 108 128),
          Display (JXMoveResizeWindow 20 4 24 100 100),
          Collab ''WriteState'' [20], Collab ''SendConfigureEvent'' [20]]
   \<and> HandleNetMoveResize sample_env (moveresize_request 20 769 50 50 0 0) 1 two_clients
       = HandleNetMoveResize sample_env (moveresize_request 20 768 50 50 0 0) 1 two_clients
   \<and> clients (HandleNetMoveResize sample_env (moveresize_request 10 769 50 50 0 0) 0 sample_world)
       = [sample_client\<lparr>c_x := 50, c_y := 50\<rparr>]
   \<and> trace (HandleNetMoveResize sample_env (moveresize_request 10 769 50 50 0 0) 0 sample_world)
       = [Display (JXMoveResizeWindow 11 46 26 208 178),
          Display (JXMoveResizeWindow 10 4 24 200 150),
          Collab ''WriteState'' [10], Collab ''SendConfigureEvent'' [10]]
   \<and> clients (HandleNetMoveResize wide_border_env (moveresize_request 10 769 50 50 0 0) 0
                sample_world)
       = [sample_client\<lparr>c_x := 50, c_y := 50\<rparr>]
   \<and> trace (HandleNetMoveResize wide_border_env (moveresize_request 10 769 50 50 0 0) 0
              sample_world)
       = [Display (JXMoveResizeWindow 11 40 20 220 190),
          Display (JXMoveResizeWindow 10 10 30 200 150),
          Collab ''WriteState'' [10], Collab ''SendConfigureEvent'' [10]]"
proof -
  have given: "clients two_clients = [sample_client, second_client]
      \<and> (c_x second_client, c_y second_client, c_gravity second_client) = (300, 10, 9)
      \<and> GetGravityDelta sample_env (second_client\<lparr>c_gravity := 1\<rparr>) = (0, 0)
      \<and> drop_bit 8 (l0 (moveresize_request 20 1024 0 0 300 0)) AND 3 = 0
      \<and> request_gravity (moveresize_request 20 769 50 50 0 0) second_client = 1"
    by (simp add: two_clients_def sample_world_def second_client_def sample_env_def
        moveresize_request_def flags_1024 flags_769 request_gravity_def)
  note defs = moveresize_request_def flags_769 flags_1024 sample_client_def second_client_def
    two_clients_def sample_world_def sample_env_def wide_border_env_def client_def Let_def
    c_int_def c_unsigned_def
  have width_only:
    "clients (HandleNetMoveResize sample_env (moveresize_request 20 1024 0 0 300 0) 1 two_clients)
       = [sample_client, second_client\<lparr>c_x := 296, c_y := - 14, c_width := 300\<rparr>]"
    using HandleNetMoveResize_effect [where env = sample_env and w = two_clients and np = 1
            and ev = "moveresize_request 20 1024 0 0 300 0"]
    by (simp add: defs)
  have north_west:
    "clients (HandleNetMoveResize sample_env (moveresize_request 20 769 50 50 0 0) 1 two_clients)
       = [sample_client, second_client\<lparr>c_x := 46, c_y := 26\<rparr>]
     \<and> trace (HandleNetMoveResize sample_env (moveresize_request 20 769 50 50 0 0) 1 two_clients)
       = [Display (JXMoveResizeWindow 21 42 2 108 128),
          Display (JXMoveResizeWindow 20 4 24 100 100),
          Collab ''WriteState'' [20], Collab ''SendConfigureEvent'' [20]]"
    using HandleNetMoveResize_effect [where env = sample_env and w = two_clients and np = 1
            and ev = "moveresize_request 20 769 50 50 0 0"]
    by (simp add: defs)
  have same: "HandleNetMoveResize sample_env (moveresize_request 20 769 50 50 0 0) 1 two_clients
       = HandleNetMoveResize sample_env (moveresize_request 20 768 50 50 0 0) 1 two_clients"
    by (rule HandleNetMoveResize_ignores_request_gravity)
       (simp_all add: moveresize_request_def drop_bit_eq_div)
  have own:
    "clients (HandleNetMoveResize sample_env (moveresize_request 10 769 50 50 0 0) 0 sample_world)
       = [sample_client\<lparr>c_x := 50, c_y := 50\<rparr>]
     \<and> trace (HandleNetMoveResize sample_env (moveresize_request 10 769 50 50 0 0) 0 sample_world)
       = [Display (JXMoveResizeWindow 11 46 26 208 178),
          Display (JXMoveResizeWindow 10 4 24 200 150),
          Collab ''WriteState'' [10], Collab ''SendConfigureEvent'' [10]]"
    using HandleNetMoveResize_effect [where env = sample_env and w = sample_world and np = 0
            and ev = "moveresize_request 10 769 50 50 0 0"]
    by (simp add: defs)
  have wide:
    "clients (HandleNetMoveResize wide_border_env (moveresize_request 10 769 50 50 0 0) 0
                sample_world)
       = [sample_client\<lparr>c_x := 50, c_y := 50\<rparr>]
     \<and> trace (HandleNetMoveResize wide_border_env (moveresize_request 10 769 50 50 0 0) 0
              sample_world)
       = [Display (JXMoveResizeWindow 11 40 20 220 190),
          Display (JXMoveResizeWindow 10 10 30 200 150),
          Collab ''WriteState'' [10], Collab ''SendConfigureEvent'' [10]]"
    using HandleNetMoveResize_effect [where env = wide_border_env and w = sample_world and np = 0
            and ev = "moveresize_request 10 769 50 50 0 0"]
    by (simp add: defs)
  from given width_only north_west same own wide show ?thesis
    by blast
qed

text \<open>
  Values outside the range of an \<^verbatim>\<open>int\<close> or below 0 are converted: a width of -1 is stored
  as -1, and the content window is asked to be 4294967295 wide inside a decoration of
  width 7.
\<close>

lemma HandleNetMoveResize_negative_width:
  "trace (HandleNetMoveResize sample_env (moveresize_request 10 1024 0 0 (- 1) 0) 0 sample_world)
     = [Display (JXMoveResizeWindow 11 6 (- 14) 7 178),
        Display (JXMoveResizeWindow 10 4 24 4294967295 150),
        Collab ''WriteState'' [10], Collab ''SendConfigureEvent'' [10]]"
  using HandleNetMoveResize_effect [where env = sample_env and w = sample_world and np = 0
          and ev = "moveresize_request 10 1024 0 0 (- 1) 0"]
  by (simp add: moveresize_request_def flags_1024 sample_client_def sample_env_def
        sample_world_def client_def Let_def c_int_def c_unsigned_def)

subsection \<open>The event loop (\<^verbatim>\<open>WaitForEvent\<close>)\<close>

text \<open>No handler adds to the queue; only the unmap handler takes from it.\<close>

lemma queue_emit [simp]: "queue (emit e w) = queue w"
  by (simp add: emit_def)

lemma queue_call [simp]: "queue (call name args w) = queue w"
  by (simp add: call_def)

lemma queue_call_np [simp]: "queue (call_np name np args w) = queue w"
  by (simp add: call_np_def)

lemma queue_update_client [simp]: "queue (update_client np f w) = queue w"
  by (simp add: update_client_def)

lemma queue_doif [simp]: "queue (f w) = queue w \<Longrightarrow> queue (doif b f w) = queue w"
  by (simp add: doif_def)

lemma queue_run_controller [simp]: "queue (run_controller np b w) = queue w"
  by (simp add: run_controller_def)

lemma queue_RemoveClient [simp]: "queue (RemoveClient np w) = queue w"
  by (simp add: RemoveClient_def)

lemma queue_SetMousePosition [simp]: "queue (SetMousePosition a b w) = queue w"
  by (simp add: SetMousePosition_def)

lemma queue_ops [simp]:
  "queue (SetClientSticky np b w) = queue w"
  "queue (MaximizeClient np w) = queue w"
  "queue (ShadeClient np w) = queue w"
  "queue (UnshadeClient np w) = queue w"
  "queue (SetClientDesktop np d w) = queue w"
  by (simp_all add: SetClientSticky_def MaximizeClient_def ShadeClient_def UnshadeClient_def
      SetClientDesktop_def)

lemma queue_HandleNetWMState [simp]: "queue (HandleNetWMState env ev np w) = queue w"
  by (simp add: HandleNetWMState_def Let_def split: prod.splits)

lemma queue_HandleNetMoveResize [simp]: "queue (HandleNetMoveResize env ev np w) = queue w"
  by (simp add: HandleNetMoveResize_def Let_def split_beta)

lemma queue_HandleClientMessage [simp]: "queue (HandleClientMessage env ev w) = queue w"
  by (simp add: HandleClientMessage_def Let_def if_distrib [where f = queue]
      option.case_distrib [where h = queue]
      cong: if_cong option.case_cong split: option.split split del: if_split)

lemma queue_HandleConfigureRequest [simp]: "queue (HandleConfigureRequest env ev w) = queue w"
  by (simp add: HandleConfigureRequest_def pass_on_request_def Let_def split_beta
      split: option.splits)

lemma queue_HandleMapRequest [simp]: "queue (HandleMapRequest env ev w) = queue w"
  by (simp add: HandleMapRequest_def Let_def split: option.splits)

lemma queue_HandlePropertyNotify [simp]: "queue (snd (HandlePropertyNotify env ev w)) = queue w"
  by (simp add: HandlePropertyNotify_def Let_def split_beta split: option.splits)

lemma queue_HandleExpose [simp]: "queue (snd (HandleExpose env ev w)) = queue w"
  by (simp add: HandleExpose_def split: option.splits)

lemma queue_HandleColormapChange [simp]: "queue (HandleColormapChange env ev w) = queue w"
  by (simp add: HandleColormapChange_def split: option.splits)

lemma queue_HandleDestroyNotify [simp]: "queue (snd (HandleDestroyNotify env ev w)) = queue w"
  by (simp add: HandleDestroyNotify_def split: option.splits)

lemma queue_HandleSelectionClear [simp]: "queue (snd (HandleSelectionClear env ev w)) = queue w"
  by (simp add: HandleSelectionClear_def)

lemma queue_HandleShapeEvent [simp]: "queue (HandleShapeEvent env win w) = queue w"
  by (simp add: HandleShapeEvent_def split: option.splits)

lemma check_destroy_length:
  "JXCheckTypedWindowEvent_DestroyNotify win q = Some (d, q') \<Longrightarrow> length q' < length q"
  by (induction q arbitrary: d q') (auto simp: Let_def split: XEvent.splits if_splits)

lemma queue_HandleUnmapNotify: "length (queue (HandleUnmapNotify env ev w)) \<le> length (queue w)"
  by (auto simp add: HandleUnmapNotify_def Let_def dest: check_destroy_length
      split: option.splits)

lemma queue_dispatch_event:
  "length (queue (snd (dispatch_event env ev w))) \<le> length (queue w)"
  by (cases ev) (simp_all add: dispatch_event_def queue_HandleUnmapNotify)

lemma queue_offer:
  "queue (snd (offer process name ev hw)) = queue (snd hw)"
  by (cases hw) (simp add: offer_def)

lemma queue_handle_event:
  "length (queue (snd (handle_event env ev w))) \<le> length (queue w)"
  by (simp add: handle_event_def queue_offer queue_dispatch_event)

text \<open>The bound on the number of rounds does not matter once it exceeds the number of queued
  events: without a result, the loop is waiting for an event.\<close>

lemma WaitForEvent_fuel:
  "length (queue w) < k1 \<Longrightarrow> length (queue w) < k2
     \<Longrightarrow> WaitForEvent env k1 w = WaitForEvent env k2 w"
proof (induction "length (queue w)" arbitrary: w k1 k2 rule: less_induct)
  case less
  obtain n1 n2 where k: "k1 = Suc n1" "k2 = Suc n2"
    using less.prems by (cases k1; cases k2) auto
  show ?case
  proof (cases "queue w")
    case Nil
    then show ?thesis by (simp add: k)
  next
    case (Cons event q)
    obtain handled w' where h:
      "handle_event env event (call ''Signal'' [] (w\<lparr>queue := q\<rparr>)) = (handled, w')"
      by (cases "handle_event env event (call ''Signal'' [] (w\<lparr>queue := q\<rparr>))")
    have "length (queue (snd (handle_event env event (call ''Signal'' [] (w\<lparr>queue := q\<rparr>)))))
            \<le> length (queue (call ''Signal'' [] (w\<lparr>queue := q\<rparr>)))"
      by (rule queue_handle_event)
    then have le: "length (queue w') \<le> length q"
      using h by simp
    then have "WaitForEvent env n1 w' = WaitForEvent env n2 w'"
      using less.prems Cons k by (intro less.hyps) auto
    then show ?thesis
      using Cons h by (simp add: k)
  qed
qed

lemma WaitForEvent_returned:
  "WaitForEvent env k w = Some (ev, wr)
     \<Longrightarrow> \<exists>w1 h. handle_event env ev w1 = (h, wr) \<and> (\<not> h \<or> shouldExit wr)"
proof (induction k arbitrary: w)
  case 0
  then show ?case by simp
next
  case (Suc k)
  then obtain event q where q: "queue w = event # q"
    by (cases "queue w") auto
  obtain handled w' where h: "handle_event env event (call ''Signal'' [] (w\<lparr>queue := q\<rparr>)) = (handled, w')"
    by (cases "handle_event env event (call ''Signal'' [] (w\<lparr>queue := q\<rparr>))")
  show ?case
  proof (cases "handled \<and> \<not> shouldExit w'")
    case True
    with Suc.prems q h have "WaitForEvent env k w' = Some (ev, wr)" by simp
    then show ?thesis by (rule Suc.IH)
  next
    case False
    with Suc.prems q h have "ev = event" "wr = w'" by auto
    with h False show ?thesis by blast
  qed
qed

text \<open>
  C7 (as amended). After handling an event, \<^verbatim>\<open>WaitForEvent\<close> returns exactly when the event was
  claimed by no handler (the fallback chain included) or the shutdown flag is set; it goes on
  to the next event only when the event was claimed and the flag is not set. Whenever it
  has returned, the last event was unclaimed or the flag is set. With no event queued it
  waits; and whether it returns does not depend on the bound on the rounds, once that exceeds
  the number of queued events.
\<close>

theorem WaitForEvent_loop_condition:
  "(queue w = event # q
      \<and> handle_event env event (call ''Signal'' [] (w\<lparr>queue := q\<rparr>)) = (handled, w')
    \<longrightarrow> WaitForEvent env (Suc n) w
          = (if \<not> handled \<or> shouldExit w' then Some (event, w') else WaitForEvent env n w'))
   \<and> (WaitForEvent env k w0 = Some (ev, wr)
    \<longrightarrow> (\<exists>w1 h. handle_event env ev w1 = (h, wr) \<and> (\<not> h \<or> shouldExit wr)))
   \<and> (queue w0 = [] \<longrightarrow> WaitForEvent env k w0 = None)
   \<and> (length (queue w0) < k \<and> length (queue w0) < k'
    \<longrightarrow> WaitForEvent env k w0 = WaitForEvent env k' w0)"
proof -
  have "WaitForEvent env k w0 = None" if "queue w0 = []"
    using that by (cases k) simp_all
  then show ?thesis
    using WaitForEvent_returned [of env k w0 ev wr] WaitForEvent_fuel [of w0 k k' env] by auto
qed

lemmas loop_defs = handle_event_def offer_def dispatch_event_def pending_def declined_def

lemma sample_claimed:
  "handle_event sample_env ConfigureNotify
     (call ''Signal'' [] ((pending [ConfigureNotify, ButtonEvent (press 11 1000 50 10), ConfigureNotify])
        \<lparr>queue := [ButtonEvent (press 11 1000 50 10), ConfigureNotify]\<rparr>))
     = (True, sample_world\<lparr>queue := [ButtonEvent (press 11 1000 50 10), ConfigureNotify],
                           trace := [Collab ''Signal'' []]\<rparr>)"
  by (simp add: loop_defs sample_defs state_defs)

lemma sample_unclaimed:
  "handle_event sample_env (ButtonEvent (press 11 1000 50 10))
     (call ''Signal'' [] ((sample_world\<lparr>queue := [ButtonEvent (press 11 1000 50 10), ConfigureNotify],
                           trace := [Collab ''Signal'' []]\<rparr>)\<lparr>queue := [ConfigureNotify]\<rparr>))
     = (False, sample_world\<lparr>queue := [ConfigureNotify],
                            trace := Collab ''Signal'' [] # Collab ''Signal'' [] # declined\<rparr>)"
  by (simp add: loop_defs sample_defs state_defs)

theorem WaitForEvent_loop_condition_witness:
  "WaitForEvent sample_env 2
     (pending [ConfigureNotify, ButtonEvent (press 11 1000 50 10), ConfigureNotify])
     = Some (ButtonEvent (press 11 1000 50 10),
             sample_world\<lparr>queue := [ConfigureNotify],
                          trace := Collab ''Signal'' [] # Collab ''Signal'' [] # declined\<rparr>)
   \<and> WaitForEvent sample_env 2 (pending []) = None"
proof -
  let ?p = "ButtonEvent (press 11 1000 50 10)"
  let ?w1 = "sample_world\<lparr>queue := [?p, ConfigureNotify], trace := [Collab ''Signal'' []]\<rparr>"
  let ?w2 = "sample_world\<lparr>queue := [ConfigureNotify],
                          trace := Collab ''Signal'' [] # Collab ''Signal'' [] # declined\<rparr>"
  have a: "WaitForEvent sample_env (Suc 1) (pending [ConfigureNotify, ?p, ConfigureNotify])
             = WaitForEvent sample_env 1 ?w1"
    using WaitForEvent_loop_condition
            [where w = "pending [ConfigureNotify, ?p, ConfigureNotify]" and event = ConfigureNotify
               and q = "[?p, ConfigureNotify]" and env = sample_env and handled = True
               and w' = ?w1 and n = 1]
          sample_claimed
    by (simp add: pending_def sample_world_def)
  have b: "WaitForEvent sample_env (Suc 0) ?w1 = Some (?p, ?w2)"
    using WaitForEvent_loop_condition
            [where w = ?w1 and event = ?p and q = "[ConfigureNotify]" and env = sample_env
               and handled = False and w' = ?w2 and n = 0]
          sample_unclaimed
    by simp
  have c: "WaitForEvent sample_env 2 (pending []) = None"
    using WaitForEvent_loop_condition [where ?w0.0 = "pending []" and env = sample_env and k = 2]
    by (simp add: pending_def sample_world_def)
  from a b c show ?thesis by (simp add: numeral_2_eq_2)
qed

text \<open>
  The claim C7 as stated fails in both directions: with the shutdown flag not set, the loop
  returns on an unclaimed button press and leaves the next event queued; with the flag set,
  it returns after an event that was claimed.
\<close>

theorem returns_without_shutdown_counterexample:
  "\<not> shouldExit (pending [ButtonEvent (press 11 1000 50 10), ConfigureNotify])
   \<and> WaitForEvent sample_env 2 (pending [ButtonEvent (press 11 1000 50 10), ConfigureNotify])
     = Some (ButtonEvent (press 11 1000 50 10),
             sample_world\<lparr>queue := [ConfigureNotify], trace := Collab ''Signal'' [] # declined\<rparr>)
   \<and> WaitForEvent sample_env 2 ((pending [ConfigureNotify, ConfigureNotify])\<lparr>shouldExit := True\<rparr>)
     = Some (ConfigureNotify,
             sample_world\<lparr>queue := [ConfigureNotify], trace := [Collab ''Signal'' []],
                          shouldExit := True\<rparr>)"
  by (simp add: numeral_2_eq_2 loop_defs sample_defs state_defs)

subsection \<open>Unmap followed by destroy (\<^verbatim>\<open>HandleUnmapNotify\<close>, \<^verbatim>\<open>HandleDestroyNotify\<close>)\<close>

lemma trace_RemoveClient:
  "trace (RemoveClient np w) = trace w @ [Collab ''RemoveClient'' [int (c_window (client w np))]]"
  by (simp add: RemoveClient_def)

lemma clients_RemoveClient:
  "clients (RemoveClient np w) = take np (clients w) @ drop (Suc np) (clients w)"
  by (simp add: RemoveClient_def)

lemma FindClientByParent_clients:
  "clients w' = clients w \<Longrightarrow> FindClientByParent w' p = FindClientByParent w p"
  by (simp add: FindClientByParent_def)

lemma FindClientByWindow_clients:
  "clients w' = clients w \<Longrightarrow> FindClientByWindow w' win = FindClientByWindow w win"
  by (simp add: FindClientByWindow_def FindClientByParent_def split: option.splits)

text \<open>
  C8. An unmap notification for a client's own window, with the destroy notification for that
  window next in the queue: the unmap handler takes the destroy notification off the queue
  and does what the destroy handler does, and nothing else. The controller hook, if there is
  one, is invoked once with the destroy flag, the client is removed once, and no part of the
  unmap transition happens (the decoration is not unmapped, the state is not written); the
  destroy notification is no longer queued, so it is not handled again.
\<close>

theorem unmap_then_destroy_is_one_destroy:
  assumes found: "FindClientByWindow w win = Some np"
    and own: "c_window (client w np) = win"
    and unmap: "u_window ev = win"
    and next_event: "queue w = DestroyNotify d # rest"
    and same: "d_event d = win" "d_window d = win"
  shows
    "HandleUnmapNotify env ev w = snd (HandleDestroyNotify env d (w\<lparr>queue := rest\<rparr>))
     \<and> trace (HandleUnmapNotify env ev w)
         = trace w @ (if c_controller (client w np) then [Controller win True] else [])
             @ [Collab ''RemoveClient'' [int win]]
     \<and> clients (HandleUnmapNotify env ev w) = take np (clients w) @ drop (Suc np) (clients w)
     \<and> queue (HandleUnmapNotify env ev w) = rest"
proof -
  have f: "FindClientByWindow (w\<lparr>queue := rest\<rparr>) win = Some np"
    using found by (simp add: FindClientByWindow_clients [of "w\<lparr>queue := rest\<rparr>" w])
  have c: "client (w\<lparr>queue := rest\<rparr>) np = client w np"
    by (simp add: client_def)
  have u: "HandleUnmapNotify env ev w = snd (HandleDestroyNotify env d (w\<lparr>queue := rest\<rparr>))"
    using found own unmap next_event same by (simp add: HandleUnmapNotify_def)
  have d: "HandleDestroyNotify env d (w\<lparr>queue := rest\<rparr>)
             = (True, RemoveClient np (run_controller np True (w\<lparr>queue := rest\<rparr>)))"
    using f c own same by (simp add: HandleDestroyNotify_def)
  show ?thesis
    unfolding u d using own
    by (simp add: trace_RemoveClient clients_RemoveClient trace_run_controller client_def)
qed

lemmas unmap_defs = HandleUnmapNotify_def HandleDestroyNotify_def RemoveClient_def

theorem unmap_then_destroy_is_one_destroy_witness:
  "trace (HandleUnmapNotify sample_env \<lparr>u_window = 10\<rparr> destroy_queued)
     = [Controller 10 True, Collab ''RemoveClient'' [10]]
   \<and> clients (HandleUnmapNotify sample_env \<lparr>u_window = 10\<rparr> destroy_queued) = []
   \<and> queue (HandleUnmapNotify sample_env \<lparr>u_window = 10\<rparr> destroy_queued) = [ConfigureNotify]
   \<and> trace (HandleUnmapNotify sample_env \<lparr>u_window = 10\<rparr> sample_world)
     = [Controller 10 True, Display (JXUnmapWindow 11), Collab ''WriteState'' [10],
        Collab ''UpdateTaskBar'' [], Collab ''UpdatePager'' []]
   \<and> clients (HandleUnmapNotify sample_env \<lparr>u_window = 10\<rparr> sample_world)
     = [sample_client\<lparr>c_status := {STAT_STICKY, STAT_MAXIMIZED}\<rparr>]"
proof -
  have a: "FindClientByWindow destroy_queued 10 = Some 0"
    by (simp add: FindClientByWindow_def destroy_queued_def sample_defs)
  have b: "c_window (client destroy_queued 0) = 10" "c_controller (client destroy_queued 0)"
    "clients destroy_queued = [sample_client]" "trace destroy_queued = []"
    by (simp_all add: client_def destroy_queued_def sample_defs)
  have c: "queue destroy_queued = DestroyNotify \<lparr>d_event = 10, d_window = 10\<rparr> # [ConfigureNotify]"
    by (simp add: destroy_queued_def)
  have d: "trace (HandleUnmapNotify sample_env \<lparr>u_window = 10\<rparr> sample_world)
     = [Controller 10 True, Display (JXUnmapWindow 11), Collab ''WriteState'' [10],
        Collab ''UpdateTaskBar'' [], Collab ''UpdatePager'' []]"
    "clients (HandleUnmapNotify sample_env \<lparr>u_window = 10\<rparr> sample_world)
     = [sample_client\<lparr>c_status := {STAT_STICKY, STAT_MAXIMIZED}\<rparr>]"
    by (auto simp add: unmap_defs FindClientByWindow_def sample_defs state_defs Let_def)
  have e: "u_window \<lparr>u_window = 10\<rparr> = 10" "d_event \<lparr>d_event = 10, d_window = 10\<rparr> = 10"
    "d_window \<lparr>d_event = 10, d_window = 10\<rparr> = 10"
    by simp_all
  note T = unmap_then_destroy_is_one_destroy [OF a b(1) e(1) c e(2) e(3), of sample_env]
  from T [THEN conjunct2] b d show ?thesis
    by simp
qed

subsection \<open>Desktop messages (\<^verbatim>\<open>HandleClientMessage\<close>)\<close>

lemma trace_SetClientSticky:
  "trace (SetClientSticky np b w)
     = trace w @ [Collab ''SetClientSticky'' [int (c_window (client w np)), if b then 1 else 0]]"
  by (simp add: SetClientSticky_def)

lemma trace_SetClientDesktop:
  "trace (SetClientDesktop np d w)
     = trace w @ [Collab ''SetClientDesktop'' [int (c_window (client w np)), d]]"
  by (simp add: SetClientDesktop_def)

lemma clients_SetClientDesktop:
  "clients (SetClientDesktop np d w) = (clients w)[np := (client w np)\<lparr>c_desktop := d\<rparr>]"
  by (simp add: SetClientDesktop_def clients_update_client client_def)

lemma client_update_client_same:
  "np < length (clients w) \<Longrightarrow> client (update_client np f w) np = f (client w np)"
  by (simp add: client_def update_client_def)

text \<open>
  C9. A desktop message for a client: with the value -1 the client is marked sticky; with a
  valid desktop index (at least 0 and below the desktop count) the controller hook is invoked
  first (with flag 0), then the sticky flag is cleared and the client is assigned to that
  desktop; with any other value the client records, and so the sticky flag and the desktop,
  stay as they are (the controller hook is still invoked).
\<close>

theorem desktop_assignment:
  assumes found: "FindClientByWindow w (cm_window ev) = Some np"
    and msg: "cm_message_type ev = atoms env ATOM_NET_WM_DESKTOP"
    and distinct: "atoms env ATOM_NET_WM_DESKTOP \<notin>
                     {atoms env ATOM_WIN_STATE, atoms env ATOM_WIN_LAYER,
                      atoms env ATOM_WM_CHANGE_STATE, atoms env ATOM_NET_ACTIVE_WINDOW}"
  shows
    "let c = client w np;
         hook = (if c_controller c then [Controller (c_window c) False] else []);
         w' = HandleClientMessage env ev w
     in if l0 ev = - 1 then
          clients w' = (clients w)[np := set_status STAT_STICKY True c]
          \<and> trace w' = trace w @ [Collab ''SetClientSticky'' [int (c_window c), 1]]
        else if 0 \<le> l0 ev \<and> l0 ev < int (desktopCount env) then
          clients w' = (clients w)[np := (set_status STAT_STICKY False c)\<lparr>c_desktop := l0 ev\<rparr>]
          \<and> trace w' = trace w @ hook @ [Collab ''SetClientDesktop'' [int (c_window c), l0 ev]]
        else
          clients w' = clients w \<and> trace w' = trace w @ hook"
proof -
  have lt: "np < length (clients w)"
    using found by (rule FindClientByWindow_lt)
  have h: "HandleClientMessage env ev w =
     (if l0 ev = - 1 then SetClientSticky np True w
      else
        (let w1 = run_controller np False w
         in if l0 ev \<ge> 0 \<and> l0 ev < int (desktopCount env) then
              SetClientDesktop np (l0 ev) (update_client np (set_status STAT_STICKY False) w1)
            else w1))"
    using found msg distinct by (simp add: HandleClientMessage_def)
  show ?thesis
    unfolding h Let_def using lt
    by (simp add: clients_SetClientSticky trace_SetClientSticky trace_SetClientDesktop
        clients_SetClientDesktop trace_run_controller clients_update_client
        client_update_client_same)
qed

theorem desktop_assignment_witness:
  "clients (HandleClientMessage sample_env (desktop_request (- 1))
              (sample_world\<lparr>clients := [sample_client\<lparr>c_status := {STAT_MAPPED}\<rparr>]\<rparr>))
     = [sample_client\<lparr>c_status := {STAT_STICKY, STAT_MAPPED}\<rparr>]
   \<and> clients (HandleClientMessage sample_env (desktop_request 1) sample_world)
     = [sample_client\<lparr>c_status := {STAT_MAPPED, STAT_MAXIMIZED}, c_desktop := 1\<rparr>]
   \<and> trace (HandleClientMessage sample_env (desktop_request 1) sample_world)
     = [Controller 10 False, Collab ''SetClientDesktop'' [10, 1]]
   \<and> clients (HandleClientMessage sample_env (desktop_request 2) sample_world)
     = clients sample_world
   \<and> trace (HandleClientMessage sample_env (desktop_request 2) sample_world)
     = [Controller 10 False]
   \<and> clients (HandleClientMessage sample_env (desktop_request (- 2)) sample_world)
     = clients sample_world"
proof -
  let ?w = "sample_world\<lparr>clients := [sample_client\<lparr>c_status := {STAT_MAPPED}\<rparr>]\<rparr>"
  have f: "FindClientByWindow sample_world (cm_window (desktop_request d)) = Some 0"
    "FindClientByWindow ?w (cm_window (desktop_request d)) = Some 0" for d
    by (simp_all add: FindClientByWindow_def desktop_request_def sample_defs)
  have m: "cm_message_type (desktop_request d) = atoms sample_env ATOM_NET_WM_DESKTOP" for d
    by (simp add: desktop_request_def sample_defs)
  have d: "atoms sample_env ATOM_NET_WM_DESKTOP \<notin>
                     {atoms sample_env ATOM_WIN_STATE, atoms sample_env ATOM_WIN_LAYER,
                      atoms sample_env ATOM_WM_CHANGE_STATE, atoms sample_env ATOM_NET_ACTIVE_WINDOW}"
    by (simp add: sample_defs)
  show ?thesis
    using desktop_assignment [OF f(2) m d, of "- 1"]
          desktop_assignment [OF f(1) m d, of 1]
          desktop_assignment [OF f(1) m d, of 2]
          desktop_assignment [OF f(1) m d, of "- 2"]
    by (auto simp add: desktop_request_def sample_defs client_def Let_def set_status_def)
qed

subsection \<open>Buttons 4 and 5 on a decoration (\<^verbatim>\<open>HandleButtonEvent\<close>)\<close>

lemma trace_ShadeClient:
  "trace (ShadeClient np w) = trace w @ [Collab ''ShadeClient'' [int (c_window (client w np))]]"
  by (simp add: ShadeClient_def)

lemma trace_UnshadeClient:
  "trace (UnshadeClient np w) = trace w @ [Collab ''UnshadeClient'' [int (c_window (client w np))]]"
  by (simp add: UnshadeClient_def)

lemma client_call [simp]: "client (call name args w) k = client w k"
  by (simp add: client_def)

lemma client_call_np [simp]: "client (call_np name np args w) k = client w k"
  by (simp add: client_def)

lemma find_index_update:
  "np < length xs \<Longrightarrow> P y = P (xs ! np) \<Longrightarrow> find_index P (xs[np := y]) = find_index P xs"
proof (induction xs arbitrary: np)
  case Nil
  then show ?case by simp
next
  case (Cons a xs)
  then show ?case by (cases np) auto
qed

lemma FindClientByParent_set_status:
  assumes "clients w' = (clients w)[np := set_status f b (client w np)]"
  shows "FindClientByParent w' p = FindClientByParent w p"
proof (cases "np < length (clients w)")
  case True
  then show ?thesis
    using assms by (simp add: FindClientByParent_def find_index_update client_def)
next
  case False
  then show ?thesis
    using assms by (simp add: FindClientByParent_def list_update_beyond)
qed

text \<open>Buttons 4 and 5 on a decoration window.\<close>

lemma wheel_on_decoration:
  assumes found: "FindClientByParent w (b_window ev) = Some np"
  shows "b_button ev = Button4 \<Longrightarrow>
           HandleButtonEvent env ev w =
             call ''UpdatePager'' []
               (ShadeClient np (doif (focusModel env = FOCUS_CLICK) (call_np ''FocusClient'' np [])
                  (call_np ''RaiseClient'' np [] w)))"
    and "b_button ev = Button5 \<Longrightarrow>
           HandleButtonEvent env ev w =
             call ''UpdatePager'' []
               (UnshadeClient np (doif (focusModel env = FOCUS_CLICK) (call_np ''FocusClient'' np [])
                  (call_np ''RaiseClient'' np [] w)))"
  using found by (simp_all add: HandleButtonEvent_def Let_def)

text \<open>
  C10. A button event on the decoration window of a client raises the client (and focuses it
  under the click focus model); then button 4 shades the client and button 5 unshades it.
  The type of the event plays no part: the press and the release of one click each do it,
  so one click calls \<^verbatim>\<open>ShadeClient\<close> (or \<^verbatim>\<open>UnshadeClient\<close>) twice.
\<close>

theorem wheel_on_decoration_shades:
  assumes found: "FindClientByParent w (b_window ev) = Some np"
  shows
    "let c = client w np;
         raised = Collab ''RaiseClient'' [int (c_window c)]
                    # (if focusModel env = FOCUS_CLICK
                       then [Collab ''FocusClient'' [int (c_window c)]] else []);
         w' = HandleButtonEvent env ev w
     in (b_button ev = Button4 \<longrightarrow>
           clients w' = (clients w)[np := set_status STAT_SHADED True c]
           \<and> trace w' = trace w @ raised @
                [Collab ''ShadeClient'' [int (c_window c)], Collab ''UpdatePager'' []]
           \<and> trace (HandleButtonEvent env (ev\<lparr>b_type := ButtonRelease\<rparr>)
                      (HandleButtonEvent env (ev\<lparr>b_type := ButtonPress\<rparr>) w))
               = trace w @ raised @
                   [Collab ''ShadeClient'' [int (c_window c)], Collab ''UpdatePager'' []]
                 @ raised @
                   [Collab ''ShadeClient'' [int (c_window c)], Collab ''UpdatePager'' []])
        \<and> (b_button ev = Button5 \<longrightarrow>
           clients w' = (clients w)[np := set_status STAT_SHADED False c]
           \<and> trace w' = trace w @ raised @
                [Collab ''UnshadeClient'' [int (c_window c)], Collab ''UpdatePager'' []]
           \<and> trace (HandleButtonEvent env (ev\<lparr>b_type := ButtonRelease\<rparr>)
                      (HandleButtonEvent env (ev\<lparr>b_type := ButtonPress\<rparr>) w))
               = trace w @ raised @
                   [Collab ''UnshadeClient'' [int (c_window c)], Collab ''UpdatePager'' []]
                 @ raised @
                   [Collab ''UnshadeClient'' [int (c_window c)], Collab ''UpdatePager'' []])
        \<and> (b_button ev = Button4 \<or> b_button ev = Button5 \<longrightarrow>
           HandleButtonEvent env (ev\<lparr>b_type := ButtonPress\<rparr>) w = w'
           \<and> HandleButtonEvent env (ev\<lparr>b_type := ButtonRelease\<rparr>) w = w')"
proof -
  let ?c = "client w np"
  let ?raised = "Collab ''RaiseClient'' [int (c_window ?c)]
                    # (if focusModel env = FOCUS_CLICK
                       then [Collab ''FocusClient'' [int (c_window ?c)]] else [])"
  have lt: "np < length (clients w)"
    using FindClientByParent_Some [OF found] by simp
  have shade: "clients (HandleButtonEvent env e w0) = (clients w0)[np := set_status STAT_SHADED True (client w0 np)]
           \<and> trace (HandleButtonEvent env e w0) = trace w0 @
                (Collab ''RaiseClient'' [int (c_window (client w0 np))]
                    # (if focusModel env = FOCUS_CLICK
                       then [Collab ''FocusClient'' [int (c_window (client w0 np))]] else [])) @
                [Collab ''ShadeClient'' [int (c_window (client w0 np))], Collab ''UpdatePager'' []]"
    if "FindClientByParent w0 (b_window e) = Some np" "b_button e = Button4" for e w0
    using wheel_on_decoration(1) [OF that, of env]
    by (simp add: clients_ShadeClient trace_ShadeClient doif_def)
  have unshade: "clients (HandleButtonEvent env e w0) = (clients w0)[np := set_status STAT_SHADED False (client w0 np)]
           \<and> trace (HandleButtonEvent env e w0) = trace w0 @
                (Collab ''RaiseClient'' [int (c_window (client w0 np))]
                    # (if focusModel env = FOCUS_CLICK
                       then [Collab ''FocusClient'' [int (c_window (client w0 np))]] else [])) @
                [Collab ''UnshadeClient'' [int (c_window (client w0 np))], Collab ''UpdatePager'' []]"
    if "FindClientByParent w0 (b_window e) = Some np" "b_button e = Button5" for e w0
    using wheel_on_decoration(2) [OF that, of env]
    by (simp add: clients_UnshadeClient trace_UnshadeClient doif_def)
  have p: "FindClientByParent w (b_window (ev\<lparr>b_type := t\<rparr>)) = Some np" for t
    using found by simp
  have same: "HandleButtonEvent env (ev\<lparr>b_type := t\<rparr>) w = HandleButtonEvent env ev w"
    if "b_button ev = Button4 \<or> b_button ev = Button5" for t
    using that wheel_on_decoration [OF found, of env] wheel_on_decoration [OF p, of t env]
    by auto
  have twice4: "trace (HandleButtonEvent env (ev\<lparr>b_type := ButtonRelease\<rparr>)
                      (HandleButtonEvent env (ev\<lparr>b_type := ButtonPress\<rparr>) w))
               = trace w @ ?raised @
                   [Collab ''ShadeClient'' [int (c_window ?c)], Collab ''UpdatePager'' []]
                 @ ?raised @
                   [Collab ''ShadeClient'' [int (c_window ?c)], Collab ''UpdatePager'' []]"
    if b4: "b_button ev = Button4"
  proof -
    let ?w1 = "HandleButtonEvent env (ev\<lparr>b_type := ButtonPress\<rparr>) w"
    have b: "b_button (ev\<lparr>b_type := t\<rparr>) = Button4" for t using b4 by simp
    note s1 = shade [OF p [of ButtonPress] b [of ButtonPress]]
    have f1: "FindClientByParent ?w1 (b_window (ev\<lparr>b_type := ButtonRelease\<rparr>)) = Some np"
      using FindClientByParent_set_status [OF s1 [THEN conjunct1]] found by simp
    have c1: "c_window (client ?w1 np) = c_window ?c"
      using s1 [THEN conjunct1] lt by (simp add: client_def)
    from shade [OF f1 b [of ButtonRelease]] s1 c1 show ?thesis by simp
  qed
  have twice5: "trace (HandleButtonEvent env (ev\<lparr>b_type := ButtonRelease\<rparr>)
                      (HandleButtonEvent env (ev\<lparr>b_type := ButtonPress\<rparr>) w))
               = trace w @ ?raised @
                   [Collab ''UnshadeClient'' [int (c_window ?c)], Collab ''UpdatePager'' []]
                 @ ?raised @
                   [Collab ''UnshadeClient'' [int (c_window ?c)], Collab ''UpdatePager'' []]"
    if b5: "b_button ev = Button5"
  proof -
    let ?w1 = "HandleButtonEvent env (ev\<lparr>b_type := ButtonPress\<rparr>) w"
    have b: "b_button (ev\<lparr>b_type := t\<rparr>) = Button5" for t using b5 by simp
    note s1 = unshade [OF p [of ButtonPress] b [of ButtonPress]]
    have f1: "FindClientByParent ?w1 (b_window (ev\<lparr>b_type := ButtonRelease\<rparr>)) = Some np"
      using FindClientByParent_set_status [OF s1 [THEN conjunct1]] found by simp
    have c1: "c_window (client ?w1 np) = c_window ?c"
      using s1 [THEN conjunct1] lt by (simp add: client_def)
    from unshade [OF f1 b [of ButtonRelease]] s1 c1 show ?thesis by simp
  qed
  show ?thesis
    unfolding Let_def
    using shade [OF found] unshade [OF found] twice4 twice5 same by blast
qed

theorem wheel_on_decoration_shades_witness:
  "trace (HandleButtonEvent sample_env (wheel ButtonPress Button4) sample_world)
     = [Collab ''RaiseClient'' [10], Collab ''ShadeClient'' [10], Collab ''UpdatePager'' []]
   \<and> clients (HandleButtonEvent sample_env (wheel ButtonPress Button4) sample_world)
     = [sample_client\<lparr>c_status := {STAT_SHADED, STAT_MAPPED, STAT_STICKY, STAT_MAXIMIZED}\<rparr>]
   \<and> HandleButtonEvent sample_env (wheel ButtonRelease Button4) sample_world
     = HandleButtonEvent sample_env (wheel ButtonPress Button4) sample_world
   \<and> trace (HandleButtonEvent sample_env (wheel ButtonRelease Button4)
              (HandleButtonEvent sample_env (wheel ButtonPress Button4) sample_world))
     = [Collab ''RaiseClient'' [10], Collab ''ShadeClient'' [10], Collab ''UpdatePager'' [],
        Collab ''RaiseClient'' [10], Collab ''ShadeClient'' [10], Collab ''UpdatePager'' []]
   \<and> trace (HandleButtonEvent sample_env (wheel ButtonRelease Button5) sample_world)
     = [Collab ''RaiseClient'' [10], Collab ''UnshadeClient'' [10], Collab ''UpdatePager'' []]"
proof -
  have f: "FindClientByParent sample_world (b_window (wheel t b)) = Some 0" for t b
    by (simp add: FindClientByParent_def wheel_def sample_defs)
  have u: "wheel t b\<lparr>b_type := t'\<rparr> = wheel t' b" for t t' b
    by (simp add: wheel_def)
  have b: "b_button (wheel t b) = b" for t b
    by (simp add: wheel_def)
  show ?thesis
    using wheel_on_decoration_shades [OF f [of ButtonPress Button4], of sample_env]
          wheel_on_decoration_shades [OF f [of ButtonRelease Button5], of sample_env]
    by (auto simp add: Let_def u b client_def sample_defs set_status_def)
qed

end
